theory Spec2Isabelle
  imports Main "HOL-Library.Word"
begin

unbundle bit_operations_syntax

section \<open>Result codes and telegrams\<close>

text \<open>
  The result codes of \<^verbatim>\<open>aoresult.h\<close> that \<^verbatim>\<open>aoosp_send.cpp\<close> and
  \<^verbatim>\<open>aoosp_exec.cpp\<close> name. The transport may answer with codes the library never
  names; they are \<open>aoresult_spi_other\<close>.
\<close>

datatype aoresult =
    aoresult_ok
  | aoresult_outargnull
  | aoresult_osp_arg
  | aoresult_osp_addr
  | aoresult_osp_size
  | aoresult_osp_psi
  | aoresult_osp_preamble
  | aoresult_osp_tid
  | aoresult_osp_crc
  | aoresult_spi_noclock
  | aoresult_spi_other nat
  | aoresult_sys_cabling
  | aoresult_sys_id
  | aoresult_dev_noi2cbridge
  | aoresult_dev_i2ctimeout
  | aoresult_dev_i2cnack

text \<open>
  \<^verbatim>\<open>typedef struct aoosp_tele_s { uint8_t data[AOOSP_TELE_MAXSIZE]; uint8_t size; }\<close>.
  The field \<^verbatim>\<open>size\<close> is \<open>tsize\<close> here.
\<close>

definition AOOSP_TELE_MAXSIZE :: nat where
  "AOOSP_TELE_MAXSIZE = 12"

record aoosp_tele =
  data :: "8 word list"
  tsize :: nat

text \<open>
  The checksum \<^verbatim>\<open>aoosp_crc(data, size)\<close> lives in \<^verbatim>\<open>aoosp_crc.cpp\<close>; every function
  below that calls it takes it as the parameter \<open>crc\<close>, applied to the first
  \<open>size\<close> bytes of the buffer.
\<close>

type_synonym crc_fn = "8 word list \<Rightarrow> 8 word"

subsection \<open>Field access macros\<close>

text \<open>
  The macros compute in C \<^verbatim>\<open>int\<close>: their operands are \<^verbatim>\<open>uint8_t\<close> or
  \<^verbatim>\<open>uint16_t\<close> values after integer promotion, never negative and far below
  \<open>2 ^ 31\<close>, so \<open>int\<close> is exact. A store into a \<^verbatim>\<open>uint8_t\<close> or
  \<^verbatim>\<open>uint16_t\<close> truncates, which is \<open>word_of_int\<close>.
\<close>

definition BITS_MASK :: "nat \<Rightarrow> int" where
  "BITS_MASK n = push_bit n 1 - 1"

definition BITS_SLICE :: "int \<Rightarrow> nat \<Rightarrow> nat \<Rightarrow> int" where
  "BITS_SLICE v lo hi = drop_bit lo v AND BITS_MASK (hi - lo)"

definition SIZE2PSI :: "int \<Rightarrow> int" where
  "SIZE2PSI payloadsize = (if payloadsize < 8 then payloadsize else 7)"

definition TELEPSI :: "aoosp_tele \<Rightarrow> int" where
  "TELEPSI tele =
     BITS_SLICE (uint (data tele ! 1)) 0 2 * 2 + BITS_SLICE (uint (data tele ! 2)) 7 8"

subsection \<open>Addresses\<close>

definition AOOSP_ADDR_ISBROADCAST :: "16 word \<Rightarrow> bool" where
  "AOOSP_ADDR_ISBROADCAST addr \<longleftrightarrow> addr = 0x000"

definition AOOSP_ADDR_ISUNICAST :: "16 word \<Rightarrow> bool" where
  "AOOSP_ADDR_ISUNICAST addr \<longleftrightarrow> 0x001 \<le> addr \<and> addr \<le> 0x3EF"

definition OAOSP_ADDR_ISMULTICAST :: "16 word \<Rightarrow> bool" where
  "OAOSP_ADDR_ISMULTICAST addr \<longleftrightarrow> 0x3F0 \<le> addr \<and> addr \<le> 0x3FE"

definition AOOSP_ADDR_ISOK :: "16 word \<Rightarrow> bool" where
  "AOOSP_ADDR_ISOK addr \<longleftrightarrow>
     AOOSP_ADDR_ISBROADCAST addr \<or> AOOSP_ADDR_ISUNICAST addr \<or> OAOSP_ADDR_ISMULTICAST addr"

section \<open>Telegram constructors\<close>

text \<open>
  Every constructor \<^verbatim>\<open>aoosp_con_xxx(tele, addr, ...)\<close> writes into the caller's
  telegram. Its model takes the telegram as it is before the call and returns the
  result code with the telegram as it is after; on an error return the telegram is
  unchanged. The functions are \<^verbatim>\<open>static\<close> and every call passes the address of a
  local telegram, so the test \<^verbatim>\<open>tele==0\<close> never fires and \<open>tele\<close> is not a pointer
  here. An output pointer that may be null is a cell: \<open>None\<close> is the null pointer,
  \<open>Some v\<close> a pointer to a variable holding \<open>v\<close>.

  Each constructor has the same four statements after its constants:
  \<^verbatim>\<open>tele->size = payloadsize+4;\<close>
  \<^verbatim>\<open>tele->data[0] = 0xA0 | BITS_SLICE(addr,6,10);\<close>
  \<^verbatim>\<open>tele->data[1] = BITS_SLICE(addr,0,6)<<2 | BITS_SLICE(SIZE2PSI(payloadsize),1,3);\<close>
  \<^verbatim>\<open>tele->data[2] = BITS_SLICE(SIZE2PSI(payloadsize),0,1)<<7 | tid;\<close>
  They are \<open>build_header\<close>. \<open>put k v\<close> is \<^verbatim>\<open>tele->data[k] = v\<close>, and
  \<open>put_crc crc k\<close> is \<^verbatim>\<open>tele->data[k] = aoosp_crc(tele->data, tele->size-1)\<close> with
  the index \<open>k\<close> that the constructor writes.
\<close>

definition put :: "nat \<Rightarrow> int \<Rightarrow> aoosp_tele \<Rightarrow> aoosp_tele" where
  "put k v tele = tele\<lparr>data := (data tele)[k := word_of_int v]\<rparr>"

definition build_header :: "aoosp_tele \<Rightarrow> 16 word \<Rightarrow> int \<Rightarrow> int \<Rightarrow> aoosp_tele" where
  "build_header tele addr payloadsize tid =
     put 2 (push_bit 7 (BITS_SLICE (SIZE2PSI payloadsize) 0 1) OR tid)
       (put 1 (push_bit 2 (BITS_SLICE (uint addr) 0 6) OR BITS_SLICE (SIZE2PSI payloadsize) 1 3)
         (put 0 (0xA0 OR BITS_SLICE (uint addr) 6 10)
           (tele\<lparr>tsize := nat (payloadsize + 4)\<rparr>)))"

definition put_crc :: "crc_fn \<Rightarrow> nat \<Rightarrow> aoosp_tele \<Rightarrow> aoosp_tele" where
  "put_crc crc k tele = tele\<lparr>data := (data tele)[k := crc (take (tsize tele - 1) (data tele))]\<rparr>"

definition set_out :: "'a option \<Rightarrow> 'a \<Rightarrow> 'a option" where
  "set_out p v = (case p of None \<Rightarrow> None | Some _ \<Rightarrow> Some v)"

subsection \<open>Telegrams without payload and without response\<close>

definition aoosp_con_reset :: "crc_fn \<Rightarrow> aoosp_tele \<Rightarrow> 16 word \<Rightarrow> aoresult \<times> aoosp_tele" where
  "aoosp_con_reset crc tele addr =
     (if \<not> AOOSP_ADDR_ISOK addr then (aoresult_osp_addr, tele)
      else (aoresult_ok, put_crc crc 3 (build_header tele addr 0 0x00)))"

definition aoosp_con_clrerror :: "crc_fn \<Rightarrow> aoosp_tele \<Rightarrow> 16 word \<Rightarrow> aoresult \<times> aoosp_tele" where
  "aoosp_con_clrerror crc tele addr =
     (if \<not> AOOSP_ADDR_ISOK addr then (aoresult_osp_addr, tele)
      else (aoresult_ok, put_crc crc 3 (build_header tele addr 0 0x01)))"

definition aoosp_con_gosleep :: "crc_fn \<Rightarrow> aoosp_tele \<Rightarrow> 16 word \<Rightarrow> aoresult \<times> aoosp_tele" where
  "aoosp_con_gosleep crc tele addr =
     (if \<not> AOOSP_ADDR_ISOK addr then (aoresult_osp_addr, tele)
      else (aoresult_ok, put_crc crc 3 (build_header tele addr 0 0x04)))"

definition aoosp_con_goactive :: "crc_fn \<Rightarrow> aoosp_tele \<Rightarrow> 16 word \<Rightarrow> aoresult \<times> aoosp_tele" where
  "aoosp_con_goactive crc tele addr =
     (if \<not> AOOSP_ADDR_ISOK addr then (aoresult_osp_addr, tele)
      else (aoresult_ok, put_crc crc 3 (build_header tele addr 0 0x05)))"

definition aoosp_con_sync :: "crc_fn \<Rightarrow> aoosp_tele \<Rightarrow> 16 word \<Rightarrow> aoresult \<times> aoosp_tele" where
  "aoosp_con_sync crc tele addr =
     (if \<not> AOOSP_ADDR_ISOK addr then (aoresult_osp_addr, tele)
      else (aoresult_ok, put_crc crc 3 (build_header tele addr 0 0x0F)))"

definition aoosp_con_idle :: "crc_fn \<Rightarrow> aoosp_tele \<Rightarrow> 16 word \<Rightarrow> aoresult \<times> aoosp_tele" where
  "aoosp_con_idle crc tele addr =
     (if \<not> AOOSP_ADDR_ISOK addr then (aoresult_osp_addr, tele)
      else (aoresult_ok, put_crc crc 3 (build_header tele addr 0 0x11)))"

definition aoosp_con_foundry :: "crc_fn \<Rightarrow> aoosp_tele \<Rightarrow> 16 word \<Rightarrow> aoresult \<times> aoosp_tele" where
  "aoosp_con_foundry crc tele addr =
     (if \<not> AOOSP_ADDR_ISOK addr then (aoresult_osp_addr, tele)
      else (aoresult_ok, put_crc crc 3 (build_header tele addr 0 0x12)))"

definition aoosp_con_cust :: "crc_fn \<Rightarrow> aoosp_tele \<Rightarrow> 16 word \<Rightarrow> aoresult \<times> aoosp_tele" where
  "aoosp_con_cust crc tele addr =
     (if \<not> AOOSP_ADDR_ISOK addr then (aoresult_osp_addr, tele)
      else (aoresult_ok, put_crc crc 3 (build_header tele addr 0 0x13)))"

definition aoosp_con_burn :: "crc_fn \<Rightarrow> aoosp_tele \<Rightarrow> 16 word \<Rightarrow> aoresult \<times> aoosp_tele" where
  "aoosp_con_burn crc tele addr =
     (if \<not> AOOSP_ADDR_ISOK addr then (aoresult_osp_addr, tele)
      else (aoresult_ok, put_crc crc 3 (build_header tele addr 0 0x14)))"

subsection \<open>Telegrams without payload that ask for a response\<close>

text \<open>The last argument is \<^verbatim>\<open>uint8_t * respsize\<close>: \<^verbatim>\<open>if( respsize ) *respsize = 4+n\<close>.\<close>

definition aoosp_con_initbidir ::
  "crc_fn \<Rightarrow> aoosp_tele \<Rightarrow> 16 word \<Rightarrow> nat option \<Rightarrow> aoresult \<times> aoosp_tele \<times> nat option" where
  "aoosp_con_initbidir crc tele addr respsize =
     (if \<not> AOOSP_ADDR_ISOK addr then (aoresult_osp_addr, tele, respsize)
      else (aoresult_ok, put_crc crc 3 (build_header tele addr 0 0x02), set_out respsize (4 + 2)))"

definition aoosp_con_initloop ::
  "crc_fn \<Rightarrow> aoosp_tele \<Rightarrow> 16 word \<Rightarrow> nat option \<Rightarrow> aoresult \<times> aoosp_tele \<times> nat option" where
  "aoosp_con_initloop crc tele addr respsize =
     (if \<not> AOOSP_ADDR_ISOK addr then (aoresult_osp_addr, tele, respsize)
      else (aoresult_ok, put_crc crc 3 (build_header tele addr 0 0x03), set_out respsize (4 + 2)))"

definition aoosp_con_identify ::
  "crc_fn \<Rightarrow> aoosp_tele \<Rightarrow> 16 word \<Rightarrow> nat option \<Rightarrow> aoresult \<times> aoosp_tele \<times> nat option" where
  "aoosp_con_identify crc tele addr respsize =
     (if \<not> AOOSP_ADDR_ISOK addr then (aoresult_osp_addr, tele, respsize)
      else (aoresult_ok, put_crc crc 3 (build_header tele addr 0 0x07), set_out respsize (4 + 4)))"

definition aoosp_con_readmult ::
  "crc_fn \<Rightarrow> aoosp_tele \<Rightarrow> 16 word \<Rightarrow> nat option \<Rightarrow> aoresult \<times> aoosp_tele \<times> nat option" where
  "aoosp_con_readmult crc tele addr respsize =
     (if \<not> AOOSP_ADDR_ISOK addr then (aoresult_osp_addr, tele, respsize)
      else (aoresult_ok, put_crc crc 3 (build_header tele addr 0 0x0C), set_out respsize (4 + 2)))"

definition aoosp_con_readlast ::
  "crc_fn \<Rightarrow> aoosp_tele \<Rightarrow> 16 word \<Rightarrow> nat option \<Rightarrow> aoresult \<times> aoosp_tele \<times> nat option" where
  "aoosp_con_readlast crc tele addr respsize =
     (if \<not> AOOSP_ADDR_ISOK addr then (aoresult_osp_addr, tele, respsize)
      else (aoresult_ok, put_crc crc 3 (build_header tele addr 0 0x1E), set_out respsize (4 + 8)))"

definition aoosp_con_goactive_sr ::
  "crc_fn \<Rightarrow> aoosp_tele \<Rightarrow> 16 word \<Rightarrow> nat option \<Rightarrow> aoresult \<times> aoosp_tele \<times> nat option" where
  "aoosp_con_goactive_sr crc tele addr respsize =
     (if \<not> AOOSP_ADDR_ISOK addr then (aoresult_osp_addr, tele, respsize)
      else (aoresult_ok, put_crc crc 3 (build_header tele addr 0 0x25), set_out respsize (4 + 2)))"

definition aoosp_con_readstat ::
  "crc_fn \<Rightarrow> aoosp_tele \<Rightarrow> 16 word \<Rightarrow> nat option \<Rightarrow> aoresult \<times> aoosp_tele \<times> nat option" where
  "aoosp_con_readstat crc tele addr respsize =
     (if \<not> AOOSP_ADDR_ISOK addr then (aoresult_osp_addr, tele, respsize)
      else (aoresult_ok, put_crc crc 3 (build_header tele addr 0 0x40), set_out respsize (4 + 1)))"

definition aoosp_con_readtempstat ::
  "crc_fn \<Rightarrow> aoosp_tele \<Rightarrow> 16 word \<Rightarrow> nat option \<Rightarrow> aoresult \<times> aoosp_tele \<times> nat option" where
  "aoosp_con_readtempstat crc tele addr respsize =
     (if \<not> AOOSP_ADDR_ISOK addr then (aoresult_osp_addr, tele, respsize)
      else (aoresult_ok, put_crc crc 3 (build_header tele addr 0 0x42), set_out respsize (4 + 2)))"

definition aoosp_con_readcomst ::
  "crc_fn \<Rightarrow> aoosp_tele \<Rightarrow> 16 word \<Rightarrow> nat option \<Rightarrow> aoresult \<times> aoosp_tele \<times> nat option" where
  "aoosp_con_readcomst crc tele addr respsize =
     (if \<not> AOOSP_ADDR_ISOK addr then (aoresult_osp_addr, tele, respsize)
      else (aoresult_ok, put_crc crc 3 (build_header tele addr 0 0x44), set_out respsize (4 + 1)))"

definition aoosp_con_readtemp ::
  "crc_fn \<Rightarrow> aoosp_tele \<Rightarrow> 16 word \<Rightarrow> nat option \<Rightarrow> aoresult \<times> aoosp_tele \<times> nat option" where
  "aoosp_con_readtemp crc tele addr respsize =
     (if \<not> AOOSP_ADDR_ISOK addr then (aoresult_osp_addr, tele, respsize)
      else (aoresult_ok, put_crc crc 3 (build_header tele addr 0 0x48), set_out respsize (4 + 1)))"

definition aoosp_con_readsetup ::
  "crc_fn \<Rightarrow> aoosp_tele \<Rightarrow> 16 word \<Rightarrow> nat option \<Rightarrow> aoresult \<times> aoosp_tele \<times> nat option" where
  "aoosp_con_readsetup crc tele addr respsize =
     (if \<not> AOOSP_ADDR_ISOK addr then (aoresult_osp_addr, tele, respsize)
      else (aoresult_ok, put_crc crc 3 (build_header tele addr 0 0x4C), set_out respsize (4 + 1)))"

definition aoosp_con_readpwm ::
  "crc_fn \<Rightarrow> aoosp_tele \<Rightarrow> 16 word \<Rightarrow> nat option \<Rightarrow> aoresult \<times> aoosp_tele \<times> nat option" where
  "aoosp_con_readpwm crc tele addr respsize =
     (if \<not> AOOSP_ADDR_ISOK addr then (aoresult_osp_addr, tele, respsize)
      else (aoresult_ok, put_crc crc 3 (build_header tele addr 0 0x4E), set_out respsize (4 + 6)))"

definition aoosp_con_readi2ccfg ::
  "crc_fn \<Rightarrow> aoosp_tele \<Rightarrow> 16 word \<Rightarrow> nat option \<Rightarrow> aoresult \<times> aoosp_tele \<times> nat option" where
  "aoosp_con_readi2ccfg crc tele addr respsize =
     (if \<not> AOOSP_ADDR_ISOK addr then (aoresult_osp_addr, tele, respsize)
      else (aoresult_ok, put_crc crc 3 (build_header tele addr 0 0x56), set_out respsize (4 + 1)))"

subsection \<open>Telegrams with payload\<close>

definition aoosp_con_setmult ::
  "crc_fn \<Rightarrow> aoosp_tele \<Rightarrow> 16 word \<Rightarrow> 16 word \<Rightarrow> aoresult \<times> aoosp_tele" where
  "aoosp_con_setmult crc tele addr groups =
     (if \<not> AOOSP_ADDR_ISOK addr then (aoresult_osp_addr, tele)
      else if uint groups AND NOT 0x7FFF \<noteq> 0 then (aoresult_osp_arg, tele)
      else (aoresult_ok,
        put_crc crc 5
          (put 4 (BITS_SLICE (uint groups) 0 8)
            (put 3 (BITS_SLICE (uint groups) 8 16)
              (build_header tele addr 2 0x0D)))))"

definition aoosp_con_i2cread8 ::
  "crc_fn \<Rightarrow> aoosp_tele \<Rightarrow> 16 word \<Rightarrow> 8 word \<Rightarrow> 8 word \<Rightarrow> 8 word \<Rightarrow> aoresult \<times> aoosp_tele" where
  "aoosp_con_i2cread8 crc tele addr daddr7 raddr count =
     (if \<not> AOOSP_ADDR_ISOK addr then (aoresult_osp_addr, tele)
      else if daddr7 > 127 then (aoresult_osp_arg, tele)
      else if count < 1 \<or> count > 8 then (aoresult_osp_arg, tele)
      else (aoresult_ok,
        put_crc crc 6
          (put 5 (uint count)
            (put 4 (uint raddr)
              (put 3 (push_bit 1 (uint daddr7))
                (build_header tele addr 3 0x18))))))"

text \<open>
  \<^verbatim>\<open>aoosp_con_i2cwrite8\<close> takes \<^verbatim>\<open>const uint8_t * buf\<close> and \<^verbatim>\<open>int count\<close>; its first
  test is \<^verbatim>\<open>tele==0 || buf==0\<close>. The loop
  \<^verbatim>\<open>for( int i=0; i<count; i++ ) tele->data[5+i] = buf[i];\<close> is the \<open>fold\<close>.
\<close>

definition aoosp_con_i2cwrite8 ::
  "crc_fn \<Rightarrow> aoosp_tele \<Rightarrow> 16 word \<Rightarrow> 8 word \<Rightarrow> 8 word \<Rightarrow> 8 word list option \<Rightarrow> int
     \<Rightarrow> aoresult \<times> aoosp_tele" where
  "aoosp_con_i2cwrite8 crc tele addr daddr7 raddr buf count =
     (if buf = None then (aoresult_outargnull, tele)
      else if \<not> AOOSP_ADDR_ISOK addr then (aoresult_osp_addr, tele)
      else if daddr7 > 127 then (aoresult_osp_arg, tele)
      else if count < 1 then (aoresult_osp_arg, tele)
      else if count + 2 > 8 then (aoresult_osp_arg, tele)
      else if count + 2 = 5 \<or> count + 2 = 7 then (aoresult_osp_arg, tele)
      else (aoresult_ok,
        put_crc crc (nat (3 + 2 + count))
          (fold (\<lambda>i t. put (5 + i) (uint (the buf ! i)) t) [0..<nat count]
            (put 4 (uint raddr)
              (put 3 (push_bit 1 (uint daddr7))
                (build_header tele addr (2 + count) 0x19))))))"

definition aoosp_con_setsetup ::
  "crc_fn \<Rightarrow> aoosp_tele \<Rightarrow> 16 word \<Rightarrow> 8 word \<Rightarrow> aoresult \<times> aoosp_tele" where
  "aoosp_con_setsetup crc tele addr flags =
     (if \<not> AOOSP_ADDR_ISOK addr then (aoresult_osp_addr, tele)
      else (aoresult_ok,
        put_crc crc 4 (put 3 (uint flags) (build_header tele addr 1 0x4D))))"

definition aoosp_con_readpwmchn ::
  "crc_fn \<Rightarrow> aoosp_tele \<Rightarrow> 16 word \<Rightarrow> 8 word \<Rightarrow> nat option
     \<Rightarrow> aoresult \<times> aoosp_tele \<times> nat option" where
  "aoosp_con_readpwmchn crc tele addr chn respsize =
     (if \<not> AOOSP_ADDR_ISOK addr then (aoresult_osp_addr, tele, respsize)
      else if chn \<noteq> 0 \<and> chn \<noteq> 1 \<and> chn \<noteq> 2 then (aoresult_osp_arg, tele, respsize)
      else (aoresult_ok,
        put_crc crc 4 (put 3 (uint chn) (build_header tele addr 1 0x4E)),
        set_out respsize (4 + 6)))"

definition aoosp_con_setpwm ::
  "crc_fn \<Rightarrow> aoosp_tele \<Rightarrow> 16 word \<Rightarrow> 16 word \<Rightarrow> 16 word \<Rightarrow> 16 word \<Rightarrow> 8 word
     \<Rightarrow> aoresult \<times> aoosp_tele" where
  "aoosp_con_setpwm crc tele addr red green blue daytimes =
     (if \<not> AOOSP_ADDR_ISOK addr then (aoresult_osp_addr, tele)
      else if uint red AND NOT (BITS_MASK 15) \<noteq> 0 then (aoresult_osp_arg, tele)
      else if uint green AND NOT (BITS_MASK 15) \<noteq> 0 then (aoresult_osp_arg, tele)
      else if uint blue AND NOT (BITS_MASK 15) \<noteq> 0 then (aoresult_osp_arg, tele)
      else if uint daytimes AND NOT (BITS_MASK 3) \<noteq> 0 then (aoresult_osp_arg, tele)
      else (aoresult_ok,
        put_crc crc 9
          (put 8 (BITS_SLICE (uint blue) 0 8)
            (put 7 (push_bit 7 (BITS_SLICE (uint daytimes) 0 1) OR BITS_SLICE (uint blue) 8 15)
              (put 6 (BITS_SLICE (uint green) 0 8)
                (put 5 (push_bit 7 (BITS_SLICE (uint daytimes) 1 2) OR BITS_SLICE (uint green) 8 15)
                  (put 4 (BITS_SLICE (uint red) 0 8)
                    (put 3 (push_bit 7 (BITS_SLICE (uint daytimes) 2 3) OR BITS_SLICE (uint red) 8 15)
                      (build_header tele addr 6 0x4F)))))))))"

definition aoosp_con_setpwmchn ::
  "crc_fn \<Rightarrow> aoosp_tele \<Rightarrow> 16 word \<Rightarrow> 8 word \<Rightarrow> 16 word \<Rightarrow> 16 word \<Rightarrow> 16 word
     \<Rightarrow> aoresult \<times> aoosp_tele" where
  "aoosp_con_setpwmchn crc tele addr chn red green blue =
     (if \<not> AOOSP_ADDR_ISOK addr then (aoresult_osp_addr, tele)
      else if chn \<noteq> 0 \<and> chn \<noteq> 1 \<and> chn \<noteq> 2 then (aoresult_osp_arg, tele)
      else (aoresult_ok,
        put_crc crc 11
          (put 10 (BITS_SLICE (uint blue) 0 8)
            (put 9 (BITS_SLICE (uint blue) 8 16)
              (put 8 (BITS_SLICE (uint green) 0 8)
                (put 7 (BITS_SLICE (uint green) 8 16)
                  (put 6 (BITS_SLICE (uint red) 0 8)
                    (put 5 (BITS_SLICE (uint red) 8 16)
                      (put 4 0xFF
                        (put 3 (uint chn)
                          (build_header tele addr 8 0x4F)))))))))))"

definition aoosp_con_readcurchn ::
  "crc_fn \<Rightarrow> aoosp_tele \<Rightarrow> 16 word \<Rightarrow> 8 word \<Rightarrow> nat option
     \<Rightarrow> aoresult \<times> aoosp_tele \<times> nat option" where
  "aoosp_con_readcurchn crc tele addr chn respsize =
     (if \<not> AOOSP_ADDR_ISOK addr then (aoresult_osp_addr, tele, respsize)
      else if chn \<noteq> 0 \<and> chn \<noteq> 1 \<and> chn \<noteq> 2 then (aoresult_osp_arg, tele, respsize)
      else (aoresult_ok,
        put_crc crc 4 (put 3 (uint chn) (build_header tele addr 1 0x50)),
        set_out respsize (4 + 2)))"

definition AOOSP_CUR_NORM_OK :: "8 word \<Rightarrow> bool" where
  "AOOSP_CUR_NORM_OK v \<longleftrightarrow> 0 \<le> v \<and> v \<le> 4"

definition AOOSP_CUR_AGE_OK :: "8 word \<Rightarrow> bool" where
  "AOOSP_CUR_AGE_OK v \<longleftrightarrow> 8 \<le> v \<and> v \<le> 11"

definition AOOSP_CUR_OK :: "8 word \<Rightarrow> bool" where
  "AOOSP_CUR_OK v \<longleftrightarrow> AOOSP_CUR_NORM_OK v \<or> AOOSP_CUR_AGE_OK v"

definition aoosp_con_setcurchn ::
  "crc_fn \<Rightarrow> aoosp_tele \<Rightarrow> 16 word \<Rightarrow> 8 word \<Rightarrow> 8 word \<Rightarrow> 8 word \<Rightarrow> 8 word \<Rightarrow> 8 word
     \<Rightarrow> aoresult \<times> aoosp_tele" where
  "aoosp_con_setcurchn crc tele addr chn flags rcur gcur bcur =
     (if \<not> AOOSP_ADDR_ISOK addr then (aoresult_osp_addr, tele)
      else if uint flags AND NOT 0x07 \<noteq> 0 then (aoresult_osp_arg, tele)
      else if \<not> AOOSP_CUR_OK rcur then (aoresult_osp_arg, tele)
      else if \<not> AOOSP_CUR_OK gcur then (aoresult_osp_arg, tele)
      else if \<not> AOOSP_CUR_OK bcur then (aoresult_osp_arg, tele)
      else if chn \<noteq> 0 \<and> chn \<noteq> 1 \<and> chn \<noteq> 2 then (aoresult_osp_arg, tele)
      else (aoresult_ok,
        put_crc crc 6
          (put 5 (push_bit 4 (uint gcur) OR uint bcur)
            (put 4 (push_bit 4 (uint flags) OR uint rcur)
              (put 3 (uint chn)
                (build_header tele addr 3 0x51))))))"

definition aoosp_con_seti2ccfg ::
  "crc_fn \<Rightarrow> aoosp_tele \<Rightarrow> 16 word \<Rightarrow> 8 word \<Rightarrow> 8 word \<Rightarrow> aoresult \<times> aoosp_tele" where
  "aoosp_con_seti2ccfg crc tele addr flags speed =
     (if \<not> AOOSP_ADDR_ISOK addr then (aoresult_osp_addr, tele)
      else if uint flags AND NOT 0x0F \<noteq> 0 then (aoresult_osp_arg, tele)
      else if uint speed AND NOT 0x0F \<noteq> 0 then (aoresult_osp_arg, tele)
      else if speed = 0 then (aoresult_osp_arg, tele)
      else (aoresult_ok,
        put_crc crc 4
          (put 3 (push_bit 4 (uint flags) OR uint speed)
            (build_header tele addr 1 0x57))))"

definition aoosp_con_readotp ::
  "crc_fn \<Rightarrow> aoosp_tele \<Rightarrow> 16 word \<Rightarrow> 8 word \<Rightarrow> nat option
     \<Rightarrow> aoresult \<times> aoosp_tele \<times> nat option" where
  "aoosp_con_readotp crc tele addr otpaddr respsize =
     (if \<not> AOOSP_ADDR_ISOK addr then (aoresult_osp_addr, tele, respsize)
      else if otpaddr > 0x1F then (aoresult_osp_arg, tele, respsize)
      else (aoresult_ok,
        put_crc crc 4 (put 3 (uint otpaddr) (build_header tele addr 1 0x58)),
        set_out respsize (4 + 8)))"

text \<open>
  \<^verbatim>\<open>aoosp_con_setotp\<close> does not test \<^verbatim>\<open>buf\<close> for null, so \<open>buf\<close> is the array
  itself; its \<^verbatim>\<open>int size\<close> is \<open>sz\<close>. The loop
  \<^verbatim>\<open>for( int i=0; i<size; i++ ) tele->data[9-i] = buf[i];\<close> is the \<open>fold\<close>.
\<close>

definition aoosp_con_setotp ::
  "crc_fn \<Rightarrow> aoosp_tele \<Rightarrow> 16 word \<Rightarrow> 8 word \<Rightarrow> 8 word list \<Rightarrow> int \<Rightarrow> aoresult \<times> aoosp_tele" where
  "aoosp_con_setotp crc tele addr otpaddr buf sz =
     (if \<not> AOOSP_ADDR_ISOK addr then (aoresult_osp_addr, tele)
      else if otpaddr > 0x1F then (aoresult_osp_arg, tele)
      else if sz \<noteq> 7 then (aoresult_osp_arg, tele)
      else (aoresult_ok,
        put_crc crc 11
          (put 10 (uint otpaddr)
            (fold (\<lambda>i t. put (9 - i) (uint (buf ! i)) t) [0..<nat sz]
              (build_header tele addr 8 0x59)))))"

definition aoosp_con_settestdata ::
  "crc_fn \<Rightarrow> aoosp_tele \<Rightarrow> 16 word \<Rightarrow> 16 word \<Rightarrow> aoresult \<times> aoosp_tele" where
  "aoosp_con_settestdata crc tele addr dat =
     (if \<not> AOOSP_ADDR_ISOK addr then (aoresult_osp_addr, tele)
      else (aoresult_ok,
        put_crc crc 5
          (put 4 (BITS_SLICE (uint dat) 0 8)
            (put 3 (BITS_SLICE (uint dat) 8 16)
              (build_header tele addr 2 0x5B)))))"

text \<open>
  \<^verbatim>\<open>aoosp_con_settestpw\<close> copies the password with
  \<^verbatim>\<open>memcpy( &(tele->data[3]), &pw, 6)\<close>: the six low bytes of the \<^verbatim>\<open>uint64_t\<close> as
  they lie in memory, least significant first on the little-endian hosts the library
  is built for. The test \<^verbatim>\<open>pw & ~0x0000FFFFFFFFFFFFULL\<close> is computed in 64 bits.
  The warning printed for \<^verbatim>\<open>AOOSP_SAID_TESTPW_UNKNOWN\<close> goes to the serial port only.
\<close>

definition AOOSP_SAID_TESTPW_UNKNOWN :: "64 word" where
  "AOOSP_SAID_TESTPW_UNKNOWN = 0x0000FFFFFFFFFFFF"

definition aoosp_con_settestpw ::
  "crc_fn \<Rightarrow> aoosp_tele \<Rightarrow> 16 word \<Rightarrow> 64 word \<Rightarrow> aoresult \<times> aoosp_tele" where
  "aoosp_con_settestpw crc tele addr pw =
     (if \<not> AOOSP_ADDR_ISOK addr then (aoresult_osp_addr, tele)
      else if pw AND NOT 0x0000FFFFFFFFFFFF \<noteq> 0 then (aoresult_osp_arg, tele)
      else (aoresult_ok,
        put_crc crc 9
          (fold (\<lambda>i t. put (3 + i) (uint (drop_bit (8 * i) pw)) t) [0..<6]
            (build_header tele addr 6 0x5F))))"

section \<open>Telegram destructors\<close>

text \<open>
  A destructor \<^verbatim>\<open>aoosp_des_xxx(tele, res0, res1, ...)\<close> checks a response telegram and
  stores its fields through the output pointers. Its model takes the cell of every
  output pointer and returns the result code with the cells after the call; on an
  error return the cells are unchanged. The response telegram is always the address of
  a local, so \<^verbatim>\<open>tele==0\<close> never fires. Every check below stands in the order in which
  the source function has it. The outputs \<^verbatim>\<open>last\<close> and \<^verbatim>\<open>id\<close> are \<open>lastp\<close> and
  \<open>idp\<close>.
\<close>

definition aoosp_des_initbidir ::
  "crc_fn \<Rightarrow> aoosp_tele \<Rightarrow> 16 word option \<Rightarrow> 8 word option \<Rightarrow> 8 word option \<Rightarrow> aoresult \<times> 16 word option \<times> 8 word option \<times> 8 word option" where
  "aoosp_des_initbidir crc tele lastp temp stat =
     (if lastp = None \<or> temp = None \<or> stat = None then (aoresult_outargnull, lastp, temp, stat)
      else if tsize tele \<noteq> 4 + 2 then (aoresult_osp_size, lastp, temp, stat)
      else if TELEPSI tele \<noteq> SIZE2PSI 2 then (aoresult_osp_psi, lastp, temp, stat)
      else if BITS_SLICE (uint (data tele ! 0)) 4 8 \<noteq> 0xA then (aoresult_osp_preamble, lastp, temp, stat)
      else if BITS_SLICE (uint (data tele ! 2)) 0 7 \<noteq> 0x02 then (aoresult_osp_tid, lastp, temp, stat)
      else if crc (take (tsize tele) (data tele)) \<noteq> 0 then (aoresult_osp_crc, lastp, temp, stat)
      else (aoresult_ok,
        set_out lastp (word_of_int (push_bit 6 (BITS_SLICE (uint (data tele ! 0)) 0 4) OR BITS_SLICE (uint (data tele ! 1)) 2 8)),
        set_out temp (data tele ! 3),
        set_out stat (data tele ! 4)))"

definition aoosp_des_initloop ::
  "crc_fn \<Rightarrow> aoosp_tele \<Rightarrow> 16 word option \<Rightarrow> 8 word option \<Rightarrow> 8 word option \<Rightarrow> aoresult \<times> 16 word option \<times> 8 word option \<times> 8 word option" where
  "aoosp_des_initloop crc tele lastp temp stat =
     (if lastp = None \<or> temp = None \<or> stat = None then (aoresult_outargnull, lastp, temp, stat)
      else if tsize tele \<noteq> 4 + 2 then (aoresult_osp_size, lastp, temp, stat)
      else if TELEPSI tele \<noteq> SIZE2PSI 2 then (aoresult_osp_psi, lastp, temp, stat)
      else if BITS_SLICE (uint (data tele ! 0)) 4 8 \<noteq> 0xA then (aoresult_osp_preamble, lastp, temp, stat)
      else if BITS_SLICE (uint (data tele ! 2)) 0 7 \<noteq> 0x03 then (aoresult_osp_tid, lastp, temp, stat)
      else if crc (take (tsize tele) (data tele)) \<noteq> 0 then (aoresult_osp_crc, lastp, temp, stat)
      else (aoresult_ok,
        set_out lastp (word_of_int (push_bit 6 (BITS_SLICE (uint (data tele ! 0)) 0 4) OR BITS_SLICE (uint (data tele ! 1)) 2 8)),
        set_out temp (data tele ! 3),
        set_out stat (data tele ! 4)))"



text \<open>
  \<^verbatim>\<open>aoosp_des_readlast\<close> and \<^verbatim>\<open>aoosp_des_readotp\<close> fill the caller's array \<^verbatim>\<open>buf\<close>
  with \<^verbatim>\<open>size\<close> bytes (\<open>sz\<close> here), and test \<^verbatim>\<open>size\<close> after the checksum. The
  loops are
  \<^verbatim>\<open>for( int i=0; i<size; i++ ) buf[i] = tele->data[11-size+i];\<close> and
  \<^verbatim>\<open>for( int i=0; i<size; i++ ) buf[i] = tele->data[10-i];\<close>.
  The cell holds the caller's array; a store beyond its end, undefined in C, leaves
  the array as it is.
\<close>

definition aoosp_des_readlast ::
  "crc_fn \<Rightarrow> aoosp_tele \<Rightarrow> 8 word list option \<Rightarrow> int \<Rightarrow> aoresult \<times> 8 word list option" where
  "aoosp_des_readlast crc tele buf sz =
     (if buf = None then (aoresult_outargnull, buf)
      else if tsize tele \<noteq> 4 + 8 then (aoresult_osp_size, buf)
      else if TELEPSI tele \<noteq> SIZE2PSI 8 then (aoresult_osp_psi, buf)
      else if BITS_SLICE (uint (data tele ! 0)) 4 8 \<noteq> 0xA then (aoresult_osp_preamble, buf)
      else if BITS_SLICE (uint (data tele ! 2)) 0 7 \<noteq> 0x1E then (aoresult_osp_tid, buf)
      else if crc (take (tsize tele) (data tele)) \<noteq> 0 then (aoresult_osp_crc, buf)
      else if sz < 1 \<or> sz > 8 then (aoresult_osp_arg, buf)
      else (aoresult_ok,
        set_out buf (fold (\<lambda>i b. b[i := data tele ! (11 - nat sz + i)]) [0..<nat sz] (the buf))))"










definition aoosp_des_readi2ccfg ::
  "crc_fn \<Rightarrow> aoosp_tele \<Rightarrow> 8 word option \<Rightarrow> 8 word option \<Rightarrow> aoresult \<times> 8 word option \<times> 8 word option" where
  "aoosp_des_readi2ccfg crc tele flags speed =
     (if flags = None \<or> speed = None then (aoresult_outargnull, flags, speed)
      else if tsize tele \<noteq> 4 + 1 then (aoresult_osp_size, flags, speed)
      else if TELEPSI tele \<noteq> SIZE2PSI 1 then (aoresult_osp_psi, flags, speed)
      else if BITS_SLICE (uint (data tele ! 0)) 4 8 \<noteq> 0xA then (aoresult_osp_preamble, flags, speed)
      else if BITS_SLICE (uint (data tele ! 2)) 0 7 \<noteq> 0x56 then (aoresult_osp_tid, flags, speed)
      else if crc (take (tsize tele) (data tele)) \<noteq> 0 then (aoresult_osp_crc, flags, speed)
      else (aoresult_ok,
        set_out flags (word_of_int (BITS_SLICE (uint (data tele ! 3)) 4 8)),
        set_out speed (word_of_int (BITS_SLICE (uint (data tele ! 3)) 0 4))))"

definition aoosp_des_readotp ::
  "crc_fn \<Rightarrow> aoosp_tele \<Rightarrow> 8 word list option \<Rightarrow> int \<Rightarrow> aoresult \<times> 8 word list option" where
  "aoosp_des_readotp crc tele buf sz =
     (if buf = None then (aoresult_outargnull, buf)
      else if tsize tele \<noteq> 4 + 8 then (aoresult_osp_size, buf)
      else if TELEPSI tele \<noteq> SIZE2PSI 8 then (aoresult_osp_psi, buf)
      else if BITS_SLICE (uint (data tele ! 0)) 4 8 \<noteq> 0xA then (aoresult_osp_preamble, buf)
      else if BITS_SLICE (uint (data tele ! 2)) 0 7 \<noteq> 0x58 then (aoresult_osp_tid, buf)
      else if crc (take (tsize tele) (data tele)) \<noteq> 0 then (aoresult_osp_crc, buf)
      else if sz < 1 \<or> sz > 8 then (aoresult_osp_arg, buf)
      else (aoresult_ok,
        set_out buf (fold (\<lambda>i b. b[i := data tele ! (10 - i)]) [0..<nat sz] (the buf))))"

section \<open>Transport and global state\<close>

text \<open>
  The transport (\<^verbatim>\<open>aospi_tx\<close>, \<^verbatim>\<open>aospi_txrx\<close>, the direction mux) and the Arduino
  delays belong to other libraries. Every call on them is recorded as an event, in
  order. The transport is a parameter: its answer to a call is any function of the
  events so far and of the bytes transmitted, so a statement proved for all
  \<open>spi\<close> holds for every deterministic bus, node and cabling.
\<close>

datatype event =
    Tx "8 word list"
  | TxRx "8 word list" nat
  | Dirmux_set_loop
  | Dirmux_set_bidir
  | DelayMicroseconds nat
  | Delay nat

record aospi =
  tx_reply :: "event list \<Rightarrow> 8 word list \<Rightarrow> aoresult"
  txrx_reply :: "event list \<Rightarrow> 8 word list \<Rightarrow> nat \<Rightarrow> aoresult \<times> 8 word list"

text \<open>
  The state of the library: the events so far, the password store
  \<^verbatim>\<open>static uint64_t aoosp_said_testpw\<close> of \<^verbatim>\<open>aoosp.cpp\<close> and the cache
  \<^verbatim>\<open>static uint16_t aoosp_exec_resetinit_last_\<close> of \<^verbatim>\<open>aoosp_exec.cpp\<close> (the field
  \<open>resetinit_last_var\<close>). The log
  level and what the functions print to the serial port are left out: they do not
  reach any result.
\<close>

record aoosp_state =
  trace :: "event list"
  aoosp_said_testpw :: "64 word"
  resetinit_last_var :: "16 word"

definition aoosp_said_testpw_get :: "aoosp_state \<Rightarrow> 64 word" where
  "aoosp_said_testpw_get s = aoosp_said_testpw s"

definition aoosp_said_testpw_set :: "64 word \<Rightarrow> aoosp_state \<Rightarrow> aoosp_state" where
  "aoosp_said_testpw_set pw s = s\<lparr>aoosp_said_testpw := pw\<rparr>"

definition log_event :: "event \<Rightarrow> aoosp_state \<Rightarrow> aoosp_state" where
  "log_event e s = s\<lparr>trace := trace s @ [e]\<rparr>"

text \<open>
  \<^verbatim>\<open>aospi_tx(tx, txsize)\<close> transmits the first \<open>txsize\<close> bytes.
  \<^verbatim>\<open>aospi_txrx(tx, txsize, rx, rxsize)\<close> also stores up to \<open>rxsize\<close> received bytes
  at the start of the receive buffer.
\<close>

definition aospi_tx ::
  "aospi \<Rightarrow> aoosp_state \<Rightarrow> 8 word list \<Rightarrow> nat \<Rightarrow> aoresult \<times> aoosp_state" where
  "aospi_tx spi s tx txsize =
     (tx_reply spi (trace s) (take txsize tx), log_event (Tx (take txsize tx)) s)"

definition aospi_txrx ::
  "aospi \<Rightarrow> aoosp_state \<Rightarrow> 8 word list \<Rightarrow> nat \<Rightarrow> 8 word list \<Rightarrow> nat
     \<Rightarrow> aoresult \<times> 8 word list \<times> aoosp_state" where
  "aospi_txrx spi s tx txsize rx rxsize =
     (let (result, bytes) = txrx_reply spi (trace s) (take txsize tx) rxsize;
          received = take rxsize bytes
      in (result, received @ drop (length received) rx,
          log_event (TxRx (take txsize tx) rxsize) s))"

definition aospi_dirmux_set_loop :: "aoosp_state \<Rightarrow> aoosp_state" where
  "aospi_dirmux_set_loop s = log_event Dirmux_set_loop s"

definition aospi_dirmux_set_bidir :: "aoosp_state \<Rightarrow> aoosp_state" where
  "aospi_dirmux_set_bidir s = log_event Dirmux_set_bidir s"

definition delayMicroseconds :: "nat \<Rightarrow> aoosp_state \<Rightarrow> aoosp_state" where
  "delayMicroseconds us s = log_event (DelayMicroseconds us) s"

definition delay :: "nat \<Rightarrow> aoosp_state \<Rightarrow> aoosp_state" where
  "delay ms s = log_event (Delay ms) s"

section \<open>Sending telegrams\<close>

text \<open>
  A send function declares its telegrams as uninitialised locals; \<open>tele0\<close> stands
  for such a local. Its bytes are written before they are read: the constructor
  fills the bytes that are transmitted, the transport the bytes that are decoded.
  The three steps and the accumulated \<^verbatim>\<open>result\<close> are those of the source:
  \<^verbatim>\<open>if( result==aoresult_ok ) con_result= aoosp_con_xxx(...);\<close>
  \<^verbatim>\<open>if( con_result!=aoresult_ok ) result=con_result;\<close> and so on.
\<close>

definition tele0 :: aoosp_tele where
  "tele0 = \<lparr>data = replicate AOOSP_TELE_MAXSIZE 0, tsize = 0\<rparr>"

definition aoosp_send_reset ::
  "crc_fn \<Rightarrow> aospi \<Rightarrow> aoosp_state \<Rightarrow> 16 word \<Rightarrow> aoresult \<times> aoosp_state" where
  "aoosp_send_reset crc spi s addr =
     (let result = aoresult_ok;
          (con_result, tele) =
             (if result = aoresult_ok then aoosp_con_reset crc tele0 addr
              else (aoresult_ok, tele0));
          result = (if con_result \<noteq> aoresult_ok then con_result else result);
          (spi_result, s) =
             (if result = aoresult_ok then aospi_tx spi s (data tele) (tsize tele)
              else (aoresult_ok, s));
          result = (if spi_result \<noteq> aoresult_ok then spi_result else result)
      in (result, s))"

definition aoosp_send_initbidir ::
  "crc_fn \<Rightarrow> aospi \<Rightarrow> aoosp_state \<Rightarrow> 16 word \<Rightarrow> 16 word option \<Rightarrow> 8 word option \<Rightarrow> 8 word option
     \<Rightarrow> aoresult \<times> 16 word option \<times> 8 word option \<times> 8 word option \<times> aoosp_state" where
  "aoosp_send_initbidir crc spi s addr lastp temp stat =
     (let result = aoresult_ok;
          resp = tele0;
          (con_result, tele, respsize) =
             (if result = aoresult_ok then aoosp_con_initbidir crc tele0 addr (Some (tsize resp))
              else (aoresult_ok, tele0, Some (tsize resp)));
          resp = resp\<lparr>tsize := the respsize\<rparr>;
          result = (if con_result \<noteq> aoresult_ok then con_result else result);
          (spi_result, rx, s) =
             (if result = aoresult_ok
              then aospi_txrx spi s (data tele) (tsize tele) (data resp) (tsize resp)
              else (aoresult_ok, data resp, s));
          resp = resp\<lparr>data := rx\<rparr>;
          result = (if spi_result \<noteq> aoresult_ok then spi_result else result);
          (des_result, lastp, temp, stat) =
             (if result = aoresult_ok then aoosp_des_initbidir crc resp lastp temp stat
              else (aoresult_ok, lastp, temp, stat));
          result = (if des_result \<noteq> aoresult_ok then des_result else result)
      in (result, lastp, temp, stat, s))"

definition aoosp_send_initloop ::
  "crc_fn \<Rightarrow> aospi \<Rightarrow> aoosp_state \<Rightarrow> 16 word \<Rightarrow> 16 word option \<Rightarrow> 8 word option \<Rightarrow> 8 word option
     \<Rightarrow> aoresult \<times> 16 word option \<times> 8 word option \<times> 8 word option \<times> aoosp_state" where
  "aoosp_send_initloop crc spi s addr lastp temp stat =
     (let result = aoresult_ok;
          resp = tele0;
          (con_result, tele, respsize) =
             (if result = aoresult_ok then aoosp_con_initloop crc tele0 addr (Some (tsize resp))
              else (aoresult_ok, tele0, Some (tsize resp)));
          resp = resp\<lparr>tsize := the respsize\<rparr>;
          result = (if con_result \<noteq> aoresult_ok then con_result else result);
          (spi_result, rx, s) =
             (if result = aoresult_ok
              then aospi_txrx spi s (data tele) (tsize tele) (data resp) (tsize resp)
              else (aoresult_ok, data resp, s));
          resp = resp\<lparr>data := rx\<rparr>;
          result = (if spi_result \<noteq> aoresult_ok then spi_result else result);
          (des_result, lastp, temp, stat) =
             (if result = aoresult_ok then aoosp_des_initloop crc resp lastp temp stat
              else (aoresult_ok, lastp, temp, stat));
          result = (if des_result \<noteq> aoresult_ok then des_result else result)
      in (result, lastp, temp, stat, s))"

definition aoosp_send_i2cread8 ::
  "crc_fn \<Rightarrow> aospi \<Rightarrow> aoosp_state \<Rightarrow> 16 word \<Rightarrow> 8 word \<Rightarrow> 8 word \<Rightarrow> 8 word
     \<Rightarrow> aoresult \<times> aoosp_state" where
  "aoosp_send_i2cread8 crc spi s addr daddr7 raddr count =
     (let result = aoresult_ok;
          (con_result, tele) =
             (if result = aoresult_ok then aoosp_con_i2cread8 crc tele0 addr daddr7 raddr count
              else (aoresult_ok, tele0));
          result = (if con_result \<noteq> aoresult_ok then con_result else result);
          (spi_result, s) =
             (if result = aoresult_ok then aospi_tx spi s (data tele) (tsize tele)
              else (aoresult_ok, s));
          result = (if spi_result \<noteq> aoresult_ok then spi_result else result)
      in (result, s))"

definition aoosp_send_i2cwrite8 ::
  "crc_fn \<Rightarrow> aospi \<Rightarrow> aoosp_state \<Rightarrow> 16 word \<Rightarrow> 8 word \<Rightarrow> 8 word \<Rightarrow> 8 word list option \<Rightarrow> int
     \<Rightarrow> aoresult \<times> aoosp_state" where
  "aoosp_send_i2cwrite8 crc spi s addr daddr7 raddr buf count =
     (let result = aoresult_ok;
          (con_result, tele) =
             (if result = aoresult_ok
              then aoosp_con_i2cwrite8 crc tele0 addr daddr7 raddr buf count
              else (aoresult_ok, tele0));
          result = (if con_result \<noteq> aoresult_ok then con_result else result);
          (spi_result, s) =
             (if result = aoresult_ok then aospi_tx spi s (data tele) (tsize tele)
              else (aoresult_ok, s));
          result = (if spi_result \<noteq> aoresult_ok then spi_result else result)
      in (result, s))"

definition aoosp_send_readlast ::
  "crc_fn \<Rightarrow> aospi \<Rightarrow> aoosp_state \<Rightarrow> 16 word \<Rightarrow> 8 word list option \<Rightarrow> int
     \<Rightarrow> aoresult \<times> 8 word list option \<times> aoosp_state" where
  "aoosp_send_readlast crc spi s addr buf sz =
     (let result = aoresult_ok;
          resp = tele0;
          (con_result, tele, respsize) =
             (if result = aoresult_ok then aoosp_con_readlast crc tele0 addr (Some (tsize resp))
              else (aoresult_ok, tele0, Some (tsize resp)));
          resp = resp\<lparr>tsize := the respsize\<rparr>;
          result = (if con_result \<noteq> aoresult_ok then con_result else result);
          (spi_result, rx, s) =
             (if result = aoresult_ok
              then aospi_txrx spi s (data tele) (tsize tele) (data resp) (tsize resp)
              else (aoresult_ok, data resp, s));
          resp = resp\<lparr>data := rx\<rparr>;
          result = (if spi_result \<noteq> aoresult_ok then spi_result else result);
          (des_result, buf) =
             (if result = aoresult_ok then aoosp_des_readlast crc resp buf sz
              else (aoresult_ok, buf));
          result = (if des_result \<noteq> aoresult_ok then des_result else result)
      in (result, buf, s))"

definition aoosp_send_readi2ccfg ::
  "crc_fn \<Rightarrow> aospi \<Rightarrow> aoosp_state \<Rightarrow> 16 word \<Rightarrow> 8 word option \<Rightarrow> 8 word option
     \<Rightarrow> aoresult \<times> 8 word option \<times> 8 word option \<times> aoosp_state" where
  "aoosp_send_readi2ccfg crc spi s addr flags speed =
     (let result = aoresult_ok;
          resp = tele0;
          (con_result, tele, respsize) =
             (if result = aoresult_ok then aoosp_con_readi2ccfg crc tele0 addr (Some (tsize resp))
              else (aoresult_ok, tele0, Some (tsize resp)));
          resp = resp\<lparr>tsize := the respsize\<rparr>;
          result = (if con_result \<noteq> aoresult_ok then con_result else result);
          (spi_result, rx, s) =
             (if result = aoresult_ok
              then aospi_txrx spi s (data tele) (tsize tele) (data resp) (tsize resp)
              else (aoresult_ok, data resp, s));
          resp = resp\<lparr>data := rx\<rparr>;
          result = (if spi_result \<noteq> aoresult_ok then spi_result else result);
          (des_result, flags, speed) =
             (if result = aoresult_ok then aoosp_des_readi2ccfg crc resp flags speed
              else (aoresult_ok, flags, speed));
          result = (if des_result \<noteq> aoresult_ok then des_result else result)
      in (result, flags, speed, s))"

definition aoosp_send_readotp ::
  "crc_fn \<Rightarrow> aospi \<Rightarrow> aoosp_state \<Rightarrow> 16 word \<Rightarrow> 8 word \<Rightarrow> 8 word list option \<Rightarrow> int
     \<Rightarrow> aoresult \<times> 8 word list option \<times> aoosp_state" where
  "aoosp_send_readotp crc spi s addr otpaddr buf sz =
     (let result = aoresult_ok;
          resp = tele0;
          (con_result, tele, respsize) =
             (if result = aoresult_ok
              then aoosp_con_readotp crc tele0 addr otpaddr (Some (tsize resp))
              else (aoresult_ok, tele0, Some (tsize resp)));
          resp = resp\<lparr>tsize := the respsize\<rparr>;
          result = (if con_result \<noteq> aoresult_ok then con_result else result);
          (spi_result, rx, s) =
             (if result = aoresult_ok
              then aospi_txrx spi s (data tele) (tsize tele) (data resp) (tsize resp)
              else (aoresult_ok, data resp, s));
          resp = resp\<lparr>data := rx\<rparr>;
          result = (if spi_result \<noteq> aoresult_ok then spi_result else result);
          (des_result, buf) =
             (if result = aoresult_ok then aoosp_des_readotp crc resp buf sz
              else (aoresult_ok, buf));
          result = (if des_result \<noteq> aoresult_ok then des_result else result)
      in (result, buf, s))"

definition aoosp_send_setotp ::
  "crc_fn \<Rightarrow> aospi \<Rightarrow> aoosp_state \<Rightarrow> 16 word \<Rightarrow> 8 word \<Rightarrow> 8 word list \<Rightarrow> int
     \<Rightarrow> aoresult \<times> aoosp_state" where
  "aoosp_send_setotp crc spi s addr otpaddr buf sz =
     (let result = aoresult_ok;
          (con_result, tele) =
             (if result = aoresult_ok then aoosp_con_setotp crc tele0 addr otpaddr buf sz
              else (aoresult_ok, tele0));
          result = (if con_result \<noteq> aoresult_ok then con_result else result);
          (spi_result, s) =
             (if result = aoresult_ok then aospi_tx spi s (data tele) (tsize tele)
              else (aoresult_ok, s));
          result = (if spi_result \<noteq> aoresult_ok then spi_result else result)
      in (result, s))"

definition aoosp_send_settestpw ::
  "crc_fn \<Rightarrow> aospi \<Rightarrow> aoosp_state \<Rightarrow> 16 word \<Rightarrow> 64 word \<Rightarrow> aoresult \<times> aoosp_state" where
  "aoosp_send_settestpw crc spi s addr pw =
     (let result = aoresult_ok;
          (con_result, tele) =
             (if result = aoresult_ok then aoosp_con_settestpw crc tele0 addr pw
              else (aoresult_ok, tele0));
          result = (if con_result \<noteq> aoresult_ok then con_result else result);
          (spi_result, s) =
             (if result = aoresult_ok then aospi_tx spi s (data tele) (tsize tele)
              else (aoresult_ok, s));
          result = (if spi_result \<noteq> aoresult_ok then spi_result else result)
      in (result, s))"

section \<open>High level routines\<close>

subsection \<open>Reset and initialise, detecting the direction\<close>

text \<open>
  \<^verbatim>\<open>aoosp_exec_resetinit(uint16_t *last, int *loop)\<close>; both pointers may be null.
  The locals \<^verbatim>\<open>last_\<close>, \<^verbatim>\<open>temp_\<close> and \<^verbatim>\<open>stat_\<close> are uninitialised in the source
  and read only after a successful send has written them; they are \<open>last'\<close>,
  \<open>temp'\<close> and \<open>stat'\<close> and start as \<open>Some 0\<close>.
\<close>

definition aoosp_exec_resetinit ::
  "crc_fn \<Rightarrow> aospi \<Rightarrow> aoosp_state \<Rightarrow> 16 word option \<Rightarrow> int option
     \<Rightarrow> aoresult \<times> 16 word option \<times> int option \<times> aoosp_state" where
  "aoosp_exec_resetinit crc spi s lastp loop =
     (let s = s\<lparr>resetinit_last_var := 0\<rparr>;
          lastp = set_out lastp 0x000;
          loop = set_out loop (- 1);
          (result, s) = aoosp_send_reset crc spi s 0x000;
          s = delayMicroseconds 150 s
      in if result \<noteq> aoresult_ok then (result, lastp, loop, s)
      else
        let s = aospi_dirmux_set_loop s;
            (result, last', temp', stat', s) =
               aoosp_send_initloop crc spi s 0x001 (Some 0) (Some 0) (Some 0)
        in if result = aoresult_ok
           then (result, set_out lastp (the last'), set_out loop 1,
                 s\<lparr>resetinit_last_var := the last'\<rparr>)
        else if result \<noteq> aoresult_spi_noclock then (result, lastp, loop, s)
        else
          let (result, s) = aoosp_send_reset crc spi s 0x000;
              s = delayMicroseconds 150 s
          in if result \<noteq> aoresult_ok then (result, lastp, loop, s)
          else
            let s = aospi_dirmux_set_bidir s;
                (result, last', temp', stat', s) =
                   aoosp_send_initbidir crc spi s 0x001 last' temp' stat'
            in if result = aoresult_ok
               then (result, set_out lastp (the last'), set_out loop 0,
                     s\<lparr>resetinit_last_var := the last'\<rparr>)
            else if result \<noteq> aoresult_spi_noclock then (result, lastp, loop, s)
            else (aoresult_sys_cabling, lastp, loop, s))"

definition aoosp_exec_resetinit_last :: "aoosp_state \<Rightarrow> 16 word" where
  "aoosp_exec_resetinit_last s = resetinit_last_var s"

subsection \<open>Updating one byte of the OTP mirror\<close>

text \<open>
  The label \<^verbatim>\<open>free_resources:\<close> of \<^verbatim>\<open>aoosp_exec_setotp\<close> with the two statements
  after it; every \<^verbatim>\<open>goto free_resources\<close> and the fall-through end here. The result
  of the \<^verbatim>\<open>aoosp_send_settestpw(addr,0)\<close> there is dropped by the source.
\<close>

definition free_resources ::
  "crc_fn \<Rightarrow> aospi \<Rightarrow> aoosp_state \<Rightarrow> 16 word \<Rightarrow> bool \<Rightarrow> aoresult \<Rightarrow> aoresult \<times> aoosp_state" where
  "free_resources crc spi s addr resource_pw result =
     (if resource_pw then (result, snd (aoosp_send_settestpw crc spi s addr 0))
      else (result, s))"

definition aoosp_exec_setotp ::
  "crc_fn \<Rightarrow> aospi \<Rightarrow> aoosp_state \<Rightarrow> 16 word \<Rightarrow> 8 word \<Rightarrow> 8 word \<Rightarrow> 8 word
     \<Rightarrow> aoresult \<times> aoosp_state" where
  "aoosp_exec_setotp crc spi s addr otpaddr ormask andmask =
     (if otpaddr < 0x0D \<or> otpaddr > 0x1F then (aoresult_osp_arg, s)
      else
        let resource_pw = False;
            (result, s) = aoosp_send_settestpw crc spi s addr (aoosp_said_testpw_get s)
        in if result \<noteq> aoresult_ok then free_resources crc spi s addr resource_pw result
        else
          let resource_pw = True;
              (result, buf, s) =
                 aoosp_send_readotp crc spi s addr otpaddr (Some (replicate 8 0)) 8
          in if result \<noteq> aoresult_ok then free_resources crc spi s addr resource_pw result
          else
            let buf = (the buf)[0 := (the buf ! 0 AND andmask) OR ormask];
                (result, s) = aoosp_send_setotp crc spi s addr otpaddr buf 7
            in if result \<noteq> aoresult_ok then free_resources crc spi s addr resource_pw result
            else
              let result = aoresult_ok
              in free_resources crc spi s addr resource_pw result)"

subsection \<open>I2C bridge\<close>

definition AOOSP_I2CCFG_FLAGS_NACK :: "8 word" where
  "AOOSP_I2CCFG_FLAGS_NACK = 0x02"

definition AOOSP_I2CCFG_FLAGS_BUSY :: "8 word" where
  "AOOSP_I2CCFG_FLAGS_BUSY = 0x01"

text \<open>
  The loop of \<^verbatim>\<open>aoosp_exec_i2cwrite8\<close> and \<^verbatim>\<open>aoosp_exec_i2cread8\<close>, the same text in
  both:
  \<^verbatim>\<open>while( (flags&AOOSP_I2CCFG_FLAGS_BUSY) && (tries>0) ) {\<close>
  \<^verbatim>\<open>  result = aoosp_send_readi2ccfg(addr,&flags,&speed);\<close>
  \<^verbatim>\<open>  if( result!=aoresult_ok ) return result;\<close>
  \<^verbatim>\<open>  delay(1); tries--; }\<close>
  It recurses on \<^verbatim>\<open>tries\<close>. It returns \<open>aoresult_ok\<close> with the flags when the loop is
  left by its condition, and the failing result when it is left by \<^verbatim>\<open>return\<close>.
\<close>

fun i2c_wait ::
  "crc_fn \<Rightarrow> aospi \<Rightarrow> 16 word \<Rightarrow> nat \<Rightarrow> 8 word \<Rightarrow> aoosp_state \<Rightarrow> aoresult \<times> 8 word \<times> aoosp_state" where
  "i2c_wait crc spi addr 0 flags s = (aoresult_ok, flags, s)"
| "i2c_wait crc spi addr (Suc tries) flags s =
     (if flags AND AOOSP_I2CCFG_FLAGS_BUSY = 0 then (aoresult_ok, flags, s)
      else
        let (result, flags', speed, s) =
               aoosp_send_readi2ccfg crc spi s addr (Some flags) (Some 0)
        in if result \<noteq> aoresult_ok then (result, the flags', s)
           else i2c_wait crc spi addr tries (the flags') (delay 1 s))"

definition aoosp_exec_i2cwrite8 ::
  "crc_fn \<Rightarrow> aospi \<Rightarrow> aoosp_state \<Rightarrow> 16 word \<Rightarrow> 8 word \<Rightarrow> 8 word \<Rightarrow> 8 word list option \<Rightarrow> 8 word
     \<Rightarrow> aoresult \<times> aoosp_state" where
  "aoosp_exec_i2cwrite8 crc spi s addr daddr7 raddr buf count =
     (let (result, s) = aoosp_send_i2cwrite8 crc spi s addr daddr7 raddr buf (uint count)
      in if result \<noteq> aoresult_ok then (result, s)
      else
        let flags = AOOSP_I2CCFG_FLAGS_BUSY;
            tries = 10;
            (result, flags, s) = i2c_wait crc spi addr tries flags s
        in if result \<noteq> aoresult_ok then (result, s)
        else if flags AND AOOSP_I2CCFG_FLAGS_BUSY \<noteq> 0 then (aoresult_dev_i2ctimeout, s)
        else if flags AND AOOSP_I2CCFG_FLAGS_NACK \<noteq> 0 then (aoresult_dev_i2cnack, s)
        else (aoresult_ok, s))"

definition aoosp_exec_i2cread8 ::
  "crc_fn \<Rightarrow> aospi \<Rightarrow> aoosp_state \<Rightarrow> 16 word \<Rightarrow> 8 word \<Rightarrow> 8 word \<Rightarrow> 8 word list option \<Rightarrow> 8 word
     \<Rightarrow> aoresult \<times> 8 word list option \<times> aoosp_state" where
  "aoosp_exec_i2cread8 crc spi s addr daddr7 raddr buf count =
     (let (result, s) = aoosp_send_i2cread8 crc spi s addr daddr7 raddr count
      in if result \<noteq> aoresult_ok then (result, buf, s)
      else
        let flags = AOOSP_I2CCFG_FLAGS_BUSY;
            tries = 10;
            (result, flags, s) = i2c_wait crc spi addr tries flags s
        in if result \<noteq> aoresult_ok then (result, buf, s)
        else if flags AND AOOSP_I2CCFG_FLAGS_BUSY \<noteq> 0 then (aoresult_dev_i2ctimeout, buf, s)
        else if flags AND AOOSP_I2CCFG_FLAGS_NACK \<noteq> 0 then (aoresult_dev_i2cnack, buf, s)
        else aoosp_send_readlast crc spi s addr buf (uint count))"

section \<open>Sample collaborators\<close>

text \<open>
  Concrete collaborators on which the statements below are evaluated: a checksum that
  meets the contract of the checksum collaborator (the checksum of a frame followed
  by its checksum byte is zero), a start state with the default password, and a bus
  on which no node answers.
\<close>

definition xor_crc :: crc_fn where
  "xor_crc bytes = fold (XOR) bytes 0"

definition state0 :: aoosp_state where
  "state0 = \<lparr>trace = [], aoosp_said_testpw = AOOSP_SAID_TESTPW_UNKNOWN, resetinit_last_var = 0\<rparr>"

definition spi_silent :: aospi where
  "spi_silent =
     \<lparr>tx_reply = (\<lambda>h f. aoresult_spi_noclock),
      txrx_reply = (\<lambda>h f n. (aoresult_spi_noclock, []))\<rparr>"

text \<open>
  A bus that takes every telegram and on which no response ever arrives, and two chains
  of two nodes whose last node answers the initialise telegram of one direction only:
  \<^verbatim>\<open>INITBIDIR\<close> (telegram id \<open>0x02\<close>) or \<^verbatim>\<open>INITLOOP\<close> (\<open>0x03\<close>). The response
  carries the address 2 of the last node, temperature \<open>0x00\<close>, status \<open>0x50\<close> and
  the checksum of \<open>xor_crc\<close>.
\<close>

definition spi_no_response :: aospi where
  "spi_no_response =
     \<lparr>tx_reply = (\<lambda>h f. aoresult_ok),
      txrx_reply = (\<lambda>h f n. (aoresult_spi_noclock, []))\<rparr>"

definition spi_bidir_chain :: aospi where
  "spi_bidir_chain =
     \<lparr>tx_reply = (\<lambda>h f. aoresult_ok),
      txrx_reply = (\<lambda>h f n.
        if f ! 2 = 0x02 then (aoresult_ok, [0xA0, 0x09, 0x02, 0x00, 0x50, 0xFB])
        else (aoresult_spi_noclock, []))\<rparr>"

definition spi_loop_chain :: aospi where
  "spi_loop_chain =
     \<lparr>tx_reply = (\<lambda>h f. aoresult_ok),
      txrx_reply = (\<lambda>h f n.
        if f ! 2 = 0x03 then (aoresult_ok, [0xA0, 0x09, 0x03, 0x00, 0x50, 0xFA])
        else (aoresult_spi_noclock, []))\<rparr>"

text \<open>
  A node at address 1 whose OTP mirror reads \<open>0x88, 0x77, .., 0x11\<close> from the row
  asked for: it takes every telegram and answers every request with that
  \<^verbatim>\<open>READOTP\<close> response, checksum of \<open>xor_crc\<close>. On the second bus the
  \<^verbatim>\<open>SETOTP\<close> telegram (third byte \<open>0xD9\<close>) fails in the transport.
\<close>

definition spi_said_otp :: aospi where
  "spi_said_otp =
     \<lparr>tx_reply = (\<lambda>h f. aoresult_ok),
      txrx_reply = (\<lambda>h f n.
        (aoresult_ok, [0xA0, 0x07, 0xD8, 0x11, 0x22, 0x33, 0x44, 0x55, 0x66, 0x77, 0x88, 0xF7]))\<rparr>"

definition spi_said_otp_write_fails :: aospi where
  "spi_said_otp_write_fails =
     \<lparr>tx_reply = (\<lambda>h f. if f ! 2 = 0xD9 then aoresult_spi_other 1 else aoresult_ok),
      txrx_reply = (\<lambda>h f n.
        (aoresult_ok, [0xA0, 0x07, 0xD8, 0x11, 0x22, 0x33, 0x44, 0x55, 0x66, 0x77, 0x88, 0xF7]))\<rparr>"

section \<open>The constructors as one function\<close>

text \<open>
  A call of any of the 36 constructors of \<^verbatim>\<open>aoosp_send.cpp\<close> with its arguments, the
  telegram it leaves, and the \<^verbatim>\<open>payloadsize\<close> constant of the constructor called
  (\<^verbatim>\<open>2+count\<close> in \<^verbatim>\<open>aoosp_con_i2cwrite8\<close>).
\<close>

datatype con_call =
    Con_reset "16 word"
  | Con_clrerror "16 word"
  | Con_initbidir "16 word" "nat option"
  | Con_initloop "16 word" "nat option"
  | Con_gosleep "16 word"
  | Con_goactive "16 word"
  | Con_identify "16 word" "nat option"
  | Con_readmult "16 word" "nat option"
  | Con_setmult "16 word" "16 word"
  | Con_sync "16 word"
  | Con_idle "16 word"
  | Con_foundry "16 word"
  | Con_cust "16 word"
  | Con_burn "16 word"
  | Con_i2cread8 "16 word" "8 word" "8 word" "8 word"
  | Con_i2cwrite8 "16 word" "8 word" "8 word" "8 word list option" "int"
  | Con_readlast "16 word" "nat option"
  | Con_goactive_sr "16 word" "nat option"
  | Con_readstat "16 word" "nat option"
  | Con_readtempstat "16 word" "nat option"
  | Con_readcomst "16 word" "nat option"
  | Con_readtemp "16 word" "nat option"
  | Con_readsetup "16 word" "nat option"
  | Con_setsetup "16 word" "8 word"
  | Con_readpwm "16 word" "nat option"
  | Con_readpwmchn "16 word" "8 word" "nat option"
  | Con_setpwm "16 word" "16 word" "16 word" "16 word" "8 word"
  | Con_setpwmchn "16 word" "8 word" "16 word" "16 word" "16 word"
  | Con_readcurchn "16 word" "8 word" "nat option"
  | Con_setcurchn "16 word" "8 word" "8 word" "8 word" "8 word" "8 word"
  | Con_readi2ccfg "16 word" "nat option"
  | Con_seti2ccfg "16 word" "8 word" "8 word"
  | Con_readotp "16 word" "8 word" "nat option"
  | Con_setotp "16 word" "8 word" "8 word list" "int"
  | Con_settestdata "16 word" "16 word"
  | Con_settestpw "16 word" "64 word"

fun aoosp_con :: "crc_fn \<Rightarrow> aoosp_tele \<Rightarrow> con_call \<Rightarrow> aoresult \<times> aoosp_tele" where
  "aoosp_con crc tele (Con_reset addr) = aoosp_con_reset crc tele addr"
| "aoosp_con crc tele (Con_clrerror addr) = aoosp_con_clrerror crc tele addr"
| "aoosp_con crc tele (Con_initbidir addr respsize) =
     (case aoosp_con_initbidir crc tele addr respsize of (result, tele, respsize) \<Rightarrow> (result, tele))"
| "aoosp_con crc tele (Con_initloop addr respsize) =
     (case aoosp_con_initloop crc tele addr respsize of (result, tele, respsize) \<Rightarrow> (result, tele))"
| "aoosp_con crc tele (Con_gosleep addr) = aoosp_con_gosleep crc tele addr"
| "aoosp_con crc tele (Con_goactive addr) = aoosp_con_goactive crc tele addr"
| "aoosp_con crc tele (Con_identify addr respsize) =
     (case aoosp_con_identify crc tele addr respsize of (result, tele, respsize) \<Rightarrow> (result, tele))"
| "aoosp_con crc tele (Con_readmult addr respsize) =
     (case aoosp_con_readmult crc tele addr respsize of (result, tele, respsize) \<Rightarrow> (result, tele))"
| "aoosp_con crc tele (Con_setmult addr a0) = aoosp_con_setmult crc tele addr a0"
| "aoosp_con crc tele (Con_sync addr) = aoosp_con_sync crc tele addr"
| "aoosp_con crc tele (Con_idle addr) = aoosp_con_idle crc tele addr"
| "aoosp_con crc tele (Con_foundry addr) = aoosp_con_foundry crc tele addr"
| "aoosp_con crc tele (Con_cust addr) = aoosp_con_cust crc tele addr"
| "aoosp_con crc tele (Con_burn addr) = aoosp_con_burn crc tele addr"
| "aoosp_con crc tele (Con_i2cread8 addr a0 a1 a2) = aoosp_con_i2cread8 crc tele addr a0 a1 a2"
| "aoosp_con crc tele (Con_i2cwrite8 addr a0 a1 a2 a3) = aoosp_con_i2cwrite8 crc tele addr a0 a1 a2 a3"
| "aoosp_con crc tele (Con_readlast addr respsize) =
     (case aoosp_con_readlast crc tele addr respsize of (result, tele, respsize) \<Rightarrow> (result, tele))"
| "aoosp_con crc tele (Con_goactive_sr addr respsize) =
     (case aoosp_con_goactive_sr crc tele addr respsize of (result, tele, respsize) \<Rightarrow> (result, tele))"
| "aoosp_con crc tele (Con_readstat addr respsize) =
     (case aoosp_con_readstat crc tele addr respsize of (result, tele, respsize) \<Rightarrow> (result, tele))"
| "aoosp_con crc tele (Con_readtempstat addr respsize) =
     (case aoosp_con_readtempstat crc tele addr respsize of (result, tele, respsize) \<Rightarrow> (result, tele))"
| "aoosp_con crc tele (Con_readcomst addr respsize) =
     (case aoosp_con_readcomst crc tele addr respsize of (result, tele, respsize) \<Rightarrow> (result, tele))"
| "aoosp_con crc tele (Con_readtemp addr respsize) =
     (case aoosp_con_readtemp crc tele addr respsize of (result, tele, respsize) \<Rightarrow> (result, tele))"
| "aoosp_con crc tele (Con_readsetup addr respsize) =
     (case aoosp_con_readsetup crc tele addr respsize of (result, tele, respsize) \<Rightarrow> (result, tele))"
| "aoosp_con crc tele (Con_setsetup addr a0) = aoosp_con_setsetup crc tele addr a0"
| "aoosp_con crc tele (Con_readpwm addr respsize) =
     (case aoosp_con_readpwm crc tele addr respsize of (result, tele, respsize) \<Rightarrow> (result, tele))"
| "aoosp_con crc tele (Con_readpwmchn addr a0 respsize) =
     (case aoosp_con_readpwmchn crc tele addr a0 respsize of (result, tele, respsize) \<Rightarrow> (result, tele))"
| "aoosp_con crc tele (Con_setpwm addr a0 a1 a2 a3) = aoosp_con_setpwm crc tele addr a0 a1 a2 a3"
| "aoosp_con crc tele (Con_setpwmchn addr a0 a1 a2 a3) = aoosp_con_setpwmchn crc tele addr a0 a1 a2 a3"
| "aoosp_con crc tele (Con_readcurchn addr a0 respsize) =
     (case aoosp_con_readcurchn crc tele addr a0 respsize of (result, tele, respsize) \<Rightarrow> (result, tele))"
| "aoosp_con crc tele (Con_setcurchn addr a0 a1 a2 a3 a4) = aoosp_con_setcurchn crc tele addr a0 a1 a2 a3 a4"
| "aoosp_con crc tele (Con_readi2ccfg addr respsize) =
     (case aoosp_con_readi2ccfg crc tele addr respsize of (result, tele, respsize) \<Rightarrow> (result, tele))"
| "aoosp_con crc tele (Con_seti2ccfg addr a0 a1) = aoosp_con_seti2ccfg crc tele addr a0 a1"
| "aoosp_con crc tele (Con_readotp addr a0 respsize) =
     (case aoosp_con_readotp crc tele addr a0 respsize of (result, tele, respsize) \<Rightarrow> (result, tele))"
| "aoosp_con crc tele (Con_setotp addr a0 a1 a2) = aoosp_con_setotp crc tele addr a0 a1 a2"
| "aoosp_con crc tele (Con_settestdata addr a0) = aoosp_con_settestdata crc tele addr a0"
| "aoosp_con crc tele (Con_settestpw addr a0) = aoosp_con_settestpw crc tele addr a0"

fun con_payloadsize :: "con_call \<Rightarrow> int" where
  "con_payloadsize (Con_reset _) = 0"
| "con_payloadsize (Con_clrerror _) = 0"
| "con_payloadsize (Con_initbidir _ _) = 0"
| "con_payloadsize (Con_initloop _ _) = 0"
| "con_payloadsize (Con_gosleep _) = 0"
| "con_payloadsize (Con_goactive _) = 0"
| "con_payloadsize (Con_identify _ _) = 0"
| "con_payloadsize (Con_readmult _ _) = 0"
| "con_payloadsize (Con_setmult _ _) = 2"
| "con_payloadsize (Con_sync _) = 0"
| "con_payloadsize (Con_idle _) = 0"
| "con_payloadsize (Con_foundry _) = 0"
| "con_payloadsize (Con_cust _) = 0"
| "con_payloadsize (Con_burn _) = 0"
| "con_payloadsize (Con_i2cread8 _ _ _ _) = 3"
| "con_payloadsize (Con_i2cwrite8 addr daddr7 raddr buf count) = 2 + count"
| "con_payloadsize (Con_readlast _ _) = 0"
| "con_payloadsize (Con_goactive_sr _ _) = 0"
| "con_payloadsize (Con_readstat _ _) = 0"
| "con_payloadsize (Con_readtempstat _ _) = 0"
| "con_payloadsize (Con_readcomst _ _) = 0"
| "con_payloadsize (Con_readtemp _ _) = 0"
| "con_payloadsize (Con_readsetup _ _) = 0"
| "con_payloadsize (Con_setsetup _ _) = 1"
| "con_payloadsize (Con_readpwm _ _) = 0"
| "con_payloadsize (Con_readpwmchn _ _ _) = 1"
| "con_payloadsize (Con_setpwm _ _ _ _ _) = 6"
| "con_payloadsize (Con_setpwmchn _ _ _ _ _) = 8"
| "con_payloadsize (Con_readcurchn _ _ _) = 1"
| "con_payloadsize (Con_setcurchn _ _ _ _ _ _) = 3"
| "con_payloadsize (Con_readi2ccfg _ _) = 0"
| "con_payloadsize (Con_seti2ccfg _ _ _) = 1"
| "con_payloadsize (Con_readotp _ _ _) = 1"
| "con_payloadsize (Con_setotp _ _ _ _) = 8"
| "con_payloadsize (Con_settestdata _ _) = 2"
| "con_payloadsize (Con_settestpw _ _) = 6"

section \<open>The destructors as one function\<close>









section \<open>Responses that carry the payload of a request\<close>


section \<open>The status polls of an I2C transaction\<close>

text \<open>
  Words for what the bus answers while \<^verbatim>\<open>aoosp_exec_i2cwrite8\<close> or
  \<^verbatim>\<open>aoosp_exec_i2cread8\<close> waits. One status poll is one
  \<^verbatim>\<open>aoosp_send_readi2ccfg\<close>: \<open>poll_result\<close> is its result code with the flags it
  read, \<open>poll_sent\<close> the state after it. \<open>after_polls s k\<close> is the state after \<open>k\<close>
  polls from \<open>s\<close>, each followed by \<^verbatim>\<open>delay(1)\<close>. \<open>busy_poll\<close> holds in a state in
  which a poll succeeds and reports the busy flag. \<open>status_polls\<close> counts the requests
  with response in a trace.
\<close>

definition poll_result :: "crc_fn \<Rightarrow> aospi \<Rightarrow> 16 word \<Rightarrow> aoosp_state \<Rightarrow> aoresult \<times> 8 word" where
  "poll_result crc spi addr s =
     (case aoosp_send_readi2ccfg crc spi s addr (Some 0) (Some 0) of
        (result, flags, speed, s') \<Rightarrow> (result, the flags))"

definition poll_sent :: "crc_fn \<Rightarrow> aospi \<Rightarrow> 16 word \<Rightarrow> aoosp_state \<Rightarrow> aoosp_state" where
  "poll_sent crc spi addr s =
     (case aoosp_send_readi2ccfg crc spi s addr (Some 0) (Some 0) of
        (result, flags, speed, s') \<Rightarrow> s')"

fun after_polls :: "crc_fn \<Rightarrow> aospi \<Rightarrow> 16 word \<Rightarrow> aoosp_state \<Rightarrow> nat \<Rightarrow> aoosp_state" where
  "after_polls crc spi addr s 0 = s"
| "after_polls crc spi addr s (Suc k) =
     after_polls crc spi addr (delay 1 (poll_sent crc spi addr s)) k"

definition busy_poll :: "crc_fn \<Rightarrow> aospi \<Rightarrow> 16 word \<Rightarrow> aoosp_state \<Rightarrow> bool" where
  "busy_poll crc spi addr s =
     (case poll_result crc spi addr s of
        (result, flags) \<Rightarrow> result = aoresult_ok \<and> flags AND AOOSP_I2CCFG_FLAGS_BUSY \<noteq> 0)"

fun is_txrx :: "event \<Rightarrow> bool" where
  "is_txrx (TxRx f n) = True"
| "is_txrx _ = False"

definition status_polls :: "event list \<Rightarrow> nat" where
  "status_polls h = length (filter is_txrx h)"

text \<open>
  A node at address 1 with an I2C bridge: it takes every telegram, answers
  \<^verbatim>\<open>READLAST\<close> (third byte of the request \<open>0x1E\<close>) with the bytes 1 to 8, and answers
  a status request with the busy flag (flags and speed \<open>0x1C\<close>) as long as fewer
  than \<open>busy\<close> requests were answered before, and with the byte \<open>final\<close> from then
  on. Checksums of \<open>xor_crc\<close>.
\<close>

definition spi_i2c_bridge :: "nat \<Rightarrow> 8 word \<Rightarrow> aospi" where
  "spi_i2c_bridge busy final =
     \<lparr>tx_reply = (\<lambda>h f. aoresult_ok),
      txrx_reply = (\<lambda>h f n.
        if f ! 2 = 0x1E
        then (aoresult_ok, [0xA0, 0x07, 0x9E, 1, 2, 3, 4, 5, 6, 7, 8, 0x31])
        else if status_polls h < busy
        then (aoresult_ok, [0xA0, 0x04, 0xD6, 0x1C, 0x6E])
        else (aoresult_ok, [0xA0, 0x04, 0xD6, final, xor_crc [0xA0, 0x04, 0xD6, final]]))\<rparr>"

section \<open>Properties\<close>

subsection \<open>Bit slices\<close>

lemma BITS_MASK_mask: "BITS_MASK n = mask n"
  by (simp add: BITS_MASK_def mask_eq_exp_minus_1)

lemma bit_BITS_SLICE: "bit (BITS_SLICE v lo hi) n \<longleftrightarrow> n < hi - lo \<and> bit v (lo + n)"
  by (auto simp add: BITS_SLICE_def BITS_MASK_mask bit_simps)

lemma BITS_SLICE_mod: "BITS_SLICE v lo hi = (v div 2 ^ lo) mod 2 ^ (hi - lo)"
  by (simp add: BITS_SLICE_def BITS_MASK_mask drop_bit_eq_div flip: take_bit_eq_mask take_bit_eq_mod)

subsection \<open>The customer area check of the OTP update\<close>

text \<open>
  C2. For every address and every row address outside \<open>0x0D..0x1F\<close>,
  \<^verbatim>\<open>aoosp_exec_setotp\<close> returns \<open>aoresult_osp_arg\<close> and leaves the state as it is: no
  telegram is sent, whatever the masks, the transport and the checksum.
\<close>

theorem exec_setotp_rejects_row:
  "otpaddr < 0x0D \<or> otpaddr > 0x1F \<Longrightarrow>
     aoosp_exec_setotp crc spi s addr otpaddr ormask andmask = (aoresult_osp_arg, s)"
  by (simp add: aoosp_exec_setotp_def)

theorem exec_setotp_rejects_row_witness:
  "aoosp_exec_setotp xor_crc spi_silent state0 0x001 0x0C 0x01 0xFF = (aoresult_osp_arg, state0)
   \<and> aoosp_exec_setotp xor_crc spi_silent state0 0x001 0x20 0x01 0xFF = (aoresult_osp_arg, state0)"
  using exec_setotp_rejects_row [of "0x0C" xor_crc spi_silent state0 "0x001" "0x01" "0xFF"]
        exec_setotp_rejects_row [of "0x20" xor_crc spi_silent state0 "0x001" "0x01" "0xFF"]
  by simp

subsection \<open>The state after transport calls\<close>

lemma log_event_last [simp]: "resetinit_last_var (log_event e s) = resetinit_last_var s"
  and log_event_pw [simp]: "aoosp_said_testpw (log_event e s) = aoosp_said_testpw s"
  and log_event_trace [simp]: "trace (log_event e s) = trace s @ [e]"
  by (simp_all add: log_event_def)

lemma aospi_tx_eq: "aospi_tx spi s tx n = (r, s') \<Longrightarrow> s' = log_event (Tx (take n tx)) s"
  by (auto simp: aospi_tx_def)

lemma aospi_txrx_eq:
  "aospi_txrx spi s tx n rx m = (r, b, s') \<Longrightarrow> s' = log_event (TxRx (take n tx) m) s"
  by (auto simp: aospi_txrx_def Let_def split: prod.splits)

lemma send_reset_last:
  "aoosp_send_reset crc spi s addr = (r, s') \<Longrightarrow> resetinit_last_var s' = resetinit_last_var s"
  by (auto simp: aoosp_send_reset_def Let_def split: prod.splits if_splits dest!: aospi_tx_eq)

lemma send_initloop_last:
  "aoosp_send_initloop crc spi s addr l t st = (r, l', t', st', s') \<Longrightarrow>
     resetinit_last_var s' = resetinit_last_var s"
  by (auto simp: aoosp_send_initloop_def Let_def split: prod.splits if_splits dest!: aospi_txrx_eq)

lemma send_initbidir_last:
  "aoosp_send_initbidir crc spi s addr l t st = (r, l', t', st', s') \<Longrightarrow>
     resetinit_last_var s' = resetinit_last_var s"
  by (auto simp: aoosp_send_initbidir_def Let_def split: prod.splits if_splits dest!: aospi_txrx_eq)

subsection \<open>Telegrams of the discovery\<close>

lemma addr0_ok: "AOOSP_ADDR_ISOK 0" and addr1_ok: "AOOSP_ADDR_ISOK 1"
  by (simp_all add: AOOSP_ADDR_ISOK_def AOOSP_ADDR_ISBROADCAST_def AOOSP_ADDR_ISUNICAST_def)

lemmas frame_eval = build_header_def put_def put_crc_def tele0_def AOOSP_TELE_MAXSIZE_def
  eval_nat_numeral BITS_SLICE_def BITS_MASK_def SIZE2PSI_def set_out_def

lemma con_reset_0:
  "aoosp_con_reset crc tele0 0 =
     (aoresult_ok, \<lparr>data = [0xA0, 0, 0, crc [0xA0, 0, 0], 0, 0, 0, 0, 0, 0, 0, 0], tsize = 4\<rparr>)"
  by (simp add: aoosp_con_reset_def addr0_ok frame_eval)

lemma send_reset_0:
  "aoosp_send_reset crc spi s 0 =
     (tx_reply spi (trace s) [0xA0, 0, 0, crc [0xA0, 0, 0]],
      s\<lparr>trace := trace s @ [Tx [0xA0, 0, 0, crc [0xA0, 0, 0]]]\<rparr>)"
  by (simp add: aoosp_send_reset_def con_reset_0 aospi_tx_def log_event_def)

subsection \<open>Outputs of a failed discovery\<close>

text \<open>
  C10. \<^verbatim>\<open>aoosp_exec_resetinit\<close> sets the cache and its outputs to fail values before it
  does anything else. Whenever it returns an error, \<^verbatim>\<open>aoosp_exec_resetinit_last()\<close>
  returns 0, whatever an earlier discovery had stored, a non-null \<^verbatim>\<open>last\<close> holds 0
  and a non-null \<^verbatim>\<open>loop\<close> holds -1.
\<close>

theorem resetinit_fail_values:
  "aoosp_exec_resetinit crc spi s lastp loop = (r, lastp', loop', s') \<Longrightarrow> r \<noteq> aoresult_ok \<Longrightarrow>
     aoosp_exec_resetinit_last s' = 0 \<and> lastp' = set_out lastp 0 \<and> loop' = set_out loop (- 1)"
  by (auto simp: aoosp_exec_resetinit_def aoosp_exec_resetinit_last_def Let_def
        delayMicroseconds_def aospi_dirmux_set_loop_def aospi_dirmux_set_bidir_def
      split: prod.splits if_splits
      dest!: send_reset_last send_initloop_last send_initbidir_last)

lemma resetinit_silent:
  "aoosp_exec_resetinit xor_crc spi_silent (state0\<lparr>resetinit_last_var := 9\<rparr>) (Some 5) (Some 7) =
    (aoresult_spi_noclock, Some 0, Some (- 1),
       state0\<lparr>trace := [Tx [0xA0, 0, 0, xor_crc [0xA0, 0, 0]], DelayMicroseconds 150]\<rparr>)"
  by (simp add: aoosp_exec_resetinit_def send_reset_0 spi_silent_def state0_def set_out_def
      delayMicroseconds_def log_event_def)

theorem resetinit_fail_values_witness:
  "aoosp_exec_resetinit xor_crc spi_silent (state0\<lparr>resetinit_last_var := 9\<rparr>) (Some 5) (Some 7) =
    (aoresult_spi_noclock, Some 0, Some (- 1),
       state0\<lparr>trace := [Tx [0xA0, 0, 0, xor_crc [0xA0, 0, 0]], DelayMicroseconds 150]\<rparr>)
   \<and> aoosp_exec_resetinit_last
        (state0\<lparr>trace := [Tx [0xA0, 0, 0, xor_crc [0xA0, 0, 0]], DelayMicroseconds 150]\<rparr>) = 0"
  using resetinit_fail_values [OF resetinit_silent] resetinit_silent by simp

subsection \<open>Chain discovery\<close>

lemma set_out_set_out [simp]: "set_out (set_out p a) b = set_out p b"
  by (simp add: set_out_def split: option.splits)

lemma tele0_data: "data tele0 = [0, 0, 0, 0, 0, 0, 0, 0, 0, 0, 0, 0]"
  and tele0_tsize: "tsize tele0 = 0"
  by (simp_all add: tele0_def AOOSP_TELE_MAXSIZE_def eval_nat_numeral)

lemma con_initloop_1:
  "aoosp_con_initloop crc tele0 1 (Some n) =
     (aoresult_ok, \<lparr>data = [0xA0, 4, 3, crc [0xA0, 4, 3], 0, 0, 0, 0, 0, 0, 0, 0], tsize = 4\<rparr>, Some 6)"
  by (simp add: aoosp_con_initloop_def addr1_ok frame_eval)

lemma con_initbidir_1:
  "aoosp_con_initbidir crc tele0 1 (Some n) =
     (aoresult_ok, \<lparr>data = [0xA0, 4, 2, crc [0xA0, 4, 2], 0, 0, 0, 0, 0, 0, 0, 0], tsize = 4\<rparr>, Some 6)"
  by (simp add: aoosp_con_initbidir_def addr1_ok frame_eval)

lemma send_initloop_1_state:
  "aoosp_send_initloop crc spi s 1 l t st = (r, l', t', st', s') \<Longrightarrow>
     s' = s\<lparr>trace := trace s @ [TxRx [0xA0, 4, 3, crc [0xA0, 4, 3]] 6]\<rparr>"
  by (auto simp add: aoosp_send_initloop_def con_initloop_1 aospi_txrx_def log_event_def Let_def
      split: prod.splits if_splits)

lemma send_initbidir_1_state:
  "aoosp_send_initbidir crc spi s 1 l t st = (r, l', t', st', s') \<Longrightarrow>
     s' = s\<lparr>trace := trace s @ [TxRx [0xA0, 4, 2, crc [0xA0, 4, 2]] 6]\<rparr>"
  by (auto simp add: aoosp_send_initbidir_def con_initbidir_1 aospi_txrx_def log_event_def Let_def
      split: prod.splits if_splits)

lemma des_initloop_fail:
  "aoosp_des_initloop crc resp l t st = (r, l', t', st') \<Longrightarrow> r \<noteq> aoresult_ok \<Longrightarrow>
     l' = l \<and> t' = t \<and> st' = st"
  by (auto simp: aoosp_des_initloop_def split: if_splits)

lemma send_initloop_fail:
  "aoosp_send_initloop crc spi s addr l t st = (r, l', t', st', s') \<Longrightarrow> r \<noteq> aoresult_ok \<Longrightarrow>
     l' = l \<and> t' = t \<and> st' = st"
  by (auto simp: aoosp_send_initloop_def Let_def split: prod.splits if_splits dest: des_initloop_fail)


text \<open>
  C3. \<^verbatim>\<open>aoosp_exec_resetinit\<close> as a function of what the bus answers. \<open>r1\<close> is the
  result of the first broadcast \<^verbatim>\<open>RESET\<close>, \<open>r2\<close> that of \<^verbatim>\<open>INITLOOP\<close> at address 1
  after the mux is set to loop, \<open>r3\<close> that of the second \<^verbatim>\<open>RESET\<close>, \<open>r4\<close> that of
  \<^verbatim>\<open>INITBIDIR\<close> at address 1 after the mux is set to bidir; \<open>h1\<close> to \<open>h4\<close> are the
  transport calls made up to each of these steps. A failing \<open>r1\<close> is returned as it
  is. When \<open>r2\<close> is ok the length and direction 1 are recorded and the calls end at
  \<open>h2\<close>: no second reset, no mux change, no \<^verbatim>\<open>INITBIDIR\<close>. Only
  \<open>aoresult_spi_noclock\<close> as \<open>r2\<close> leads on to the bidir attempt, every other \<open>r2\<close>
  is returned as it is. In the bidir attempt a failing \<open>r3\<close> is returned as it is, an
  ok \<open>r4\<close> records the length and direction 0, \<open>aoresult_spi_noclock\<close> as \<open>r4\<close> gives
  \<open>aoresult_sys_cabling\<close>, and every other \<open>r4\<close> is returned as it is.
\<close>

theorem resetinit_discovery:
  "let RESET = [0xA0, 0, 0, crc [0xA0, 0, 0]];
       INITLOOP = [0xA0, 4, 3, crc [0xA0, 4, 3]];
       INITBIDIR = [0xA0, 4, 2, crc [0xA0, 4, 2]];
       h1 = trace s @ [Tx RESET, DelayMicroseconds 150];
       h2 = h1 @ [Dirmux_set_loop, TxRx INITLOOP 6];
       h3 = h2 @ [Tx RESET, DelayMicroseconds 150];
       h4 = h3 @ [Dirmux_set_bidir, TxRx INITBIDIR 6];
       s0 = s\<lparr>resetinit_last_var := 0\<rparr>;
       r1 = fst (aoosp_send_reset crc spi s0 0);
       (r2, l2, t2, st2, s2) =
          aoosp_send_initloop crc spi (s0\<lparr>trace := h1 @ [Dirmux_set_loop]\<rparr>) 1
            (Some 0) (Some 0) (Some 0);
       r3 = fst (aoosp_send_reset crc spi (s0\<lparr>trace := h2\<rparr>) 0);
       (r4, l4, t4, st4, s4) =
          aoosp_send_initbidir crc spi (s0\<lparr>trace := h3 @ [Dirmux_set_bidir]\<rparr>) 1
            (Some 0) (Some 0) (Some 0);
       failed = (\<lambda>r h. (r, set_out lastp 0, set_out loop (- 1), s0\<lparr>trace := h\<rparr>))
   in aoosp_exec_resetinit crc spi s lastp loop =
       (if r1 \<noteq> aoresult_ok then failed r1 h1
        else if r2 = aoresult_ok
          then (aoresult_ok, set_out lastp (the l2), set_out loop 1,
                s\<lparr>trace := h2, resetinit_last_var := the l2\<rparr>)
        else if r2 \<noteq> aoresult_spi_noclock then failed r2 h2
        else if r3 \<noteq> aoresult_ok then failed r3 h3
        else if r4 = aoresult_ok
          then (aoresult_ok, set_out lastp (the l4), set_out loop 0,
                s\<lparr>trace := h4, resetinit_last_var := the l4\<rparr>)
        else if r4 \<noteq> aoresult_spi_noclock then failed r4 h4
        else failed aoresult_sys_cabling h4)"
proof -
  define RESET where "RESET = [0xA0, 0, 0, crc [0xA0, 0, 0]]"
  define INITLOOP where "INITLOOP = [0xA0, 4, 3, crc [0xA0, 4, 3]]"
  define INITBIDIR where "INITBIDIR = [0xA0, 4, 2, crc [0xA0, 4, 2]]"
  define h1 where "h1 = trace s @ [Tx RESET, DelayMicroseconds 150]"
  define S2 where "S2 = s\<lparr>resetinit_last_var := 0, trace := h1 @ [Dirmux_set_loop]\<rparr>"
  define h2 where "h2 = h1 @ [Dirmux_set_loop, TxRx INITLOOP 6]"
  define h3 where "h3 = h2 @ [Tx RESET, DelayMicroseconds 150]"
  define S4 where "S4 = s\<lparr>resetinit_last_var := 0, trace := h3 @ [Dirmux_set_bidir]\<rparr>"
  define h4 where "h4 = h3 @ [Dirmux_set_bidir, TxRx INITBIDIR 6]"
  obtain r2 l2 t2 st2 s2 where
    e2: "aoosp_send_initloop crc spi S2 1 (Some 0) (Some 0) (Some 0) = (r2, l2, t2, st2, s2)"
    by (metis prod_cases5)
  obtain r4 l4 t4 st4 s4 where
    e4: "aoosp_send_initbidir crc spi S4 1 (Some 0) (Some 0) (Some 0) = (r4, l4, t4, st4, s4)"
    by (metis prod_cases5)
  have s2: "s2 = s\<lparr>resetinit_last_var := 0, trace := h2\<rparr>"
    using send_initloop_1_state [OF e2] by (simp add: S2_def h2_def INITLOOP_def)
  have s4: "s4 = s\<lparr>resetinit_last_var := 0, trace := h4\<rparr>"
    using send_initbidir_1_state [OF e4] by (simp add: S4_def h4_def INITBIDIR_def)
  have f2: "r2 \<noteq> aoresult_ok \<Longrightarrow> l2 = Some 0 \<and> t2 = Some 0 \<and> st2 = Some 0"
    using send_initloop_fail [OF e2] by simp
  have step1: "aoosp_send_reset crc spi (s\<lparr>resetinit_last_var := 0\<rparr>) 0 =
      (tx_reply spi (trace s) RESET, s\<lparr>resetinit_last_var := 0, trace := trace s @ [Tx RESET]\<rparr>)"
    by (simp add: send_reset_0 RESET_def)
  have step3: "aoosp_send_reset crc spi (s\<lparr>resetinit_last_var := 0, trace := h2\<rparr>) 0 =
      (tx_reply spi h2 RESET, s\<lparr>resetinit_last_var := 0, trace := h2 @ [Tx RESET]\<rparr>)"
    by (simp add: send_reset_0 RESET_def)
  have lhs: "aoosp_exec_resetinit crc spi s lastp loop =
       (if tx_reply spi (trace s) RESET \<noteq> aoresult_ok
          then (tx_reply spi (trace s) RESET, set_out lastp 0, set_out loop (- 1),
                s\<lparr>resetinit_last_var := 0, trace := h1\<rparr>)
        else if r2 = aoresult_ok
          then (aoresult_ok, set_out lastp (the l2), set_out loop 1,
                s\<lparr>trace := h2, resetinit_last_var := the l2\<rparr>)
        else if r2 \<noteq> aoresult_spi_noclock
          then (r2, set_out lastp 0, set_out loop (- 1), s\<lparr>resetinit_last_var := 0, trace := h2\<rparr>)
        else if tx_reply spi h2 RESET \<noteq> aoresult_ok
          then (tx_reply spi h2 RESET, set_out lastp 0, set_out loop (- 1),
                s\<lparr>resetinit_last_var := 0, trace := h3\<rparr>)
        else if r4 = aoresult_ok
          then (aoresult_ok, set_out lastp (the l4), set_out loop 0,
                s\<lparr>trace := h4, resetinit_last_var := the l4\<rparr>)
        else if r4 \<noteq> aoresult_spi_noclock
          then (r4, set_out lastp 0, set_out loop (- 1), s\<lparr>resetinit_last_var := 0, trace := h4\<rparr>)
        else (aoresult_sys_cabling, set_out lastp 0, set_out loop (- 1),
              s\<lparr>resetinit_last_var := 0, trace := h4\<rparr>))"
  proof (cases "tx_reply spi (trace s) RESET = aoresult_ok")
    case False
    then show ?thesis
      by (simp add: aoosp_exec_resetinit_def step1 Let_def delayMicroseconds_def log_event_def h1_def)
  next
    case r1: True
    have init: "aospi_dirmux_set_loop (delayMicroseconds 150
          (s\<lparr>resetinit_last_var := 0, trace := trace s @ [Tx RESET]\<rparr>)) = S2"
      by (simp add: aospi_dirmux_set_loop_def delayMicroseconds_def log_event_def S2_def h1_def)
    show ?thesis
    proof (cases "r2 = aoresult_ok")
      case True
      then show ?thesis using r1
        by (simp add: aoosp_exec_resetinit_def step1 Let_def init e2 s2)
    next
      case n2: False
      show ?thesis
      proof (cases "r2 = aoresult_spi_noclock")
        case False
        then show ?thesis using r1 n2
          by (simp add: aoosp_exec_resetinit_def step1 Let_def init e2 s2)
      next
        case c2: True
        have l2: "l2 = Some 0" "t2 = Some 0" "st2 = Some 0" using f2 n2 by simp_all
        have init4: "aospi_dirmux_set_bidir (delayMicroseconds 150
             (s\<lparr>resetinit_last_var := 0, trace := h2 @ [Tx RESET]\<rparr>)) = S4"
          by (simp add: aospi_dirmux_set_bidir_def delayMicroseconds_def log_event_def S4_def h3_def)
        show ?thesis
        proof (cases "tx_reply spi h2 RESET = aoresult_ok")
          case False
          have d3: "delayMicroseconds 150 (s\<lparr>resetinit_last_var := 0, trace := h2 @ [Tx RESET]\<rparr>) =
              s\<lparr>resetinit_last_var := 0, trace := h3\<rparr>"
            by (simp add: delayMicroseconds_def log_event_def h3_def)
          from False show ?thesis using r1 n2 c2
            by (simp add: aoosp_exec_resetinit_def step1 Let_def init e2 s2 step3 d3)
        next
          case r3: True
          show ?thesis using r1 c2 r3
            by (simp add: aoosp_exec_resetinit_def step1 Let_def init e2 s2 step3 init4 l2 e4 s4)
        qed
      qed
    qed
  qed
  show ?thesis
    unfolding Let_def
    using lhs e2 e4
    by (simp add: step1 step3 S2_def S4_def h1_def h2_def h3_def h4_def RESET_def INITLOOP_def
        INITBIDIR_def send_reset_0)
qed

lemmas sample_eval = Let_def send_reset_0 aoosp_send_initloop_def aoosp_send_initbidir_def
  con_initloop_1 con_initbidir_1 aospi_txrx_def log_event_def tele0_data tele0_tsize
  aoosp_des_initloop_def aoosp_des_initbidir_def TELEPSI_def BITS_SLICE_def BITS_MASK_def
  SIZE2PSI_def set_out_def xor_crc_def state0_def

theorem resetinit_discovery_witness:
  "aoosp_exec_resetinit xor_crc spi_bidir_chain state0 (Some 5) (Some 7) =
     (aoresult_ok, Some 2, Some 0,
      state0\<lparr>trace := [Tx [0xA0, 0, 0, 0xA0], DelayMicroseconds 150,
                        Dirmux_set_loop, TxRx [0xA0, 4, 3, 0xA7] 6,
                        Tx [0xA0, 0, 0, 0xA0], DelayMicroseconds 150,
                        Dirmux_set_bidir, TxRx [0xA0, 4, 2, 0xA6] 6],
             resetinit_last_var := 2\<rparr>)
   \<and> aoosp_exec_resetinit xor_crc spi_no_response state0 (Some 5) (Some 7) =
     (aoresult_sys_cabling, Some 0, Some (- 1),
      state0\<lparr>trace := [Tx [0xA0, 0, 0, 0xA0], DelayMicroseconds 150,
                        Dirmux_set_loop, TxRx [0xA0, 4, 3, 0xA7] 6,
                        Tx [0xA0, 0, 0, 0xA0], DelayMicroseconds 150,
                        Dirmux_set_bidir, TxRx [0xA0, 4, 2, 0xA6] 6]\<rparr>)
   \<and> aoosp_exec_resetinit xor_crc spi_loop_chain state0 (Some 5) (Some 7) =
     (aoresult_ok, Some 2, Some 1,
      state0\<lparr>trace := [Tx [0xA0, 0, 0, 0xA0], DelayMicroseconds 150,
                        Dirmux_set_loop, TxRx [0xA0, 4, 3, 0xA7] 6],
             resetinit_last_var := 2\<rparr>)"
  using resetinit_discovery [where crc = xor_crc and spi = spi_bidir_chain and s = state0
          and lastp = "Some 5" and loop = "Some 7"]
        resetinit_discovery [where crc = xor_crc and spi = spi_no_response and s = state0
          and lastp = "Some 5" and loop = "Some 7"]
        resetinit_discovery [where crc = xor_crc and spi = spi_loop_chain and s = state0
          and lastp = "Some 5" and loop = "Some 7"]
  by (simp add: sample_eval spi_bidir_chain_def spi_no_response_def spi_loop_chain_def)

subsection \<open>Telegram buffers\<close>

lemma data_put: "data (put k v t) = (data t)[k := word_of_int v]"
  and tsize_put: "tsize (put k v t) = tsize t"
  by (simp_all add: put_def)

lemma data_put_crc: "data (put_crc crc k t) = (data t)[k := crc (take (tsize t - 1) (data t))]"
  and tsize_put_crc: "tsize (put_crc crc k t) = tsize t"
  by (simp_all add: put_crc_def)

lemma data_build_header:
  "data (build_header tele addr payloadsize tid) =
     (data tele)[0 := word_of_int (0xA0 OR BITS_SLICE (uint addr) 6 10),
                 1 := word_of_int (push_bit 2 (BITS_SLICE (uint addr) 0 6)
                                   OR BITS_SLICE (SIZE2PSI payloadsize) 1 3),
                 2 := word_of_int (push_bit 7 (BITS_SLICE (SIZE2PSI payloadsize) 0 1) OR tid)]"
  and tsize_build_header: "tsize (build_header tele addr payloadsize tid) = nat (payloadsize + 4)"
  by (simp_all add: build_header_def put_def)

lemma tsize_fold_put: "tsize (fold (\<lambda>i. put (f i) (g i)) xs t) = tsize t"
  by (induction xs arbitrary: t) (simp_all add: tsize_put)

lemma length_fold_put: "length (data (fold (\<lambda>i. put (f i) (g i)) xs t)) = length (data t)"
  by (induction xs arbitrary: t) (simp_all add: data_put)

lemmas tele_simps = data_put tsize_put data_put_crc tsize_put_crc data_build_header
  tsize_build_header tsize_fold_put length_fold_put

lemma length_tele0: "length (data tele0) = 12"
  by (simp add: tele0_data)

lemma upt_0_6: "[0..<6] = [0, 1, 2, 3, 4, 5]"
  and upt_0_7: "[0..<7] = [0, 1, 2, 3, 4, 5, 6]"
  and upt_0_8: "[0..<8] = [0, 1, 2, 3, 4, 5, 6, 7]"
  by (simp_all add: upt_rec)

subsection \<open>The privilege of the OTP update is always revoked\<close>

lemma send_settestpw_ok_addr:
  "aoosp_send_settestpw crc spi s addr pw = (aoresult_ok, s1) \<Longrightarrow> AOOSP_ADDR_ISOK addr"
  by (auto simp: aoosp_send_settestpw_def aoosp_con_settestpw_def Let_def split: prod.splits if_splits)

lemma send_settestpw_0:
  "AOOSP_ADDR_ISOK addr \<Longrightarrow>
   aoosp_send_settestpw crc spi s addr 0 =
     (tx_reply spi (trace s) (take 10 (data (snd (aoosp_con_settestpw crc tele0 addr 0)))),
      s\<lparr>trace := trace s @ [Tx (take 10 (data (snd (aoosp_con_settestpw crc tele0 addr 0))))]\<rparr>)"
  by (simp add: aoosp_send_settestpw_def aoosp_con_settestpw_def Let_def aospi_tx_def log_event_def
      tele_simps)

lemma revoke_frame:
  "AOOSP_ADDR_ISOK addr \<Longrightarrow>
   take 10 (data (snd (aoosp_con_settestpw crc tele0 addr 0))) ! 2 = 0x5F \<and>
   take 6 (drop 3 (take 10 (data (snd (aoosp_con_settestpw crc tele0 addr 0))))) = [0, 0, 0, 0, 0, 0]"
  by (simp add: aoosp_con_settestpw_def tele_simps upt_0_6 tele0_data
      SIZE2PSI_def BITS_SLICE_def BITS_MASK_def)

text \<open>
  C1. A call of \<^verbatim>\<open>aoosp_exec_setotp\<close> with a row of the customer area in which sending
  the password succeeded, leaving the state \<open>s1\<close>. \<open>r2\<close> is the result of the read
  step, \<open>r3\<close> that of the write step, \<open>sl\<close> the state in which the procedure reaches
  its label \<^verbatim>\<open>free_resources\<close>: after the read when the read failed, after the write
  otherwise. On each of these paths the procedure ends with
  \<^verbatim>\<open>aoosp_send_settestpw(addr,0)\<close>, which transmits the \<^verbatim>\<open>SETTESTPW\<close> telegram
  (id \<open>0x5F\<close>) with six zero password bytes as the last transport call, and it returns
  \<open>r2\<close> when the read failed and \<open>r3\<close> otherwise (ok when nothing failed): the
  result of the revoke call is not part of it.
\<close>

theorem exec_setotp_revokes:
  assumes range: "\<not> (otpaddr < 0x0D \<or> otpaddr > 0x1F)"
    and acquire: "aoosp_send_settestpw crc spi s addr (aoosp_said_testpw_get s) = (aoresult_ok, s1)"
  shows
    "let (r2, buf, s2) = aoosp_send_readotp crc spi s1 addr otpaddr (Some (replicate 8 0)) 8;
         (r3, s3) = aoosp_send_setotp crc spi s2 addr otpaddr
                      ((the buf)[0 := (the buf ! 0 AND andmask) OR ormask]) 7;
         sl = (if r2 \<noteq> aoresult_ok then s2 else s3);
         revoke = take 10 (data (snd (aoosp_con_settestpw crc tele0 addr 0)))
     in aoosp_exec_setotp crc spi s addr otpaddr ormask andmask =
          (if r2 \<noteq> aoresult_ok then r2 else r3, snd (aoosp_send_settestpw crc spi sl addr 0))
        \<and> snd (aoosp_send_settestpw crc spi sl addr 0) = sl\<lparr>trace := trace sl @ [Tx revoke]\<rparr>
        \<and> revoke ! 2 = 0x5F \<and> take 6 (drop 3 revoke) = [0, 0, 0, 0, 0, 0]"
proof -
  have ok: "AOOSP_ADDR_ISOK addr" using acquire by (rule send_settestpw_ok_addr)
  show ?thesis
    using range acquire revoke_frame [OF ok, of crc]
    by (simp add: aoosp_exec_setotp_def Let_def free_resources_def send_settestpw_0 [OF ok]
        split: prod.splits)
qed


lemmas otp_eval = Let_def aoosp_send_settestpw_def aoosp_con_settestpw_def aoosp_send_readotp_def
  aoosp_con_readotp_def aoosp_des_readotp_def aoosp_send_setotp_def aoosp_con_setotp_def
  tele_simps tele0_data tele0_tsize upt_0_6 upt_0_7 upt_0_8 TELEPSI_def BITS_SLICE_def BITS_MASK_def
  SIZE2PSI_def set_out_def xor_crc_def aospi_tx_def aospi_txrx_def log_event_def state0_def
  addr1_ok AOOSP_SAID_TESTPW_UNKNOWN_def aoosp_said_testpw_get_def

lemma replicate_8: "replicate 8 x = [x, x, x, x, x, x, x, x]"
  by (simp add: eval_nat_numeral)

lemma acquire_said:
  "aoosp_send_settestpw xor_crc spi_said_otp_write_fails state0 1 (aoosp_said_testpw_get state0) =
    (aoresult_ok,
     state0\<lparr>trace := [Tx [0xA0, 0x07, 0x5F, 0xFF, 0xFF, 0xFF, 0xFF, 0xFF, 0xFF, 0xF8]]\<rparr>)"
  by (simp add: otp_eval spi_said_otp_write_fails_def)

lemma read_said:
  "aoosp_send_readotp xor_crc spi_said_otp_write_fails
     (state0\<lparr>trace := [Tx [0xA0, 0x07, 0x5F, 0xFF, 0xFF, 0xFF, 0xFF, 0xFF, 0xFF, 0xF8]]\<rparr>)
     1 0x0D (Some (replicate 8 0)) 8 =
    (aoresult_ok, Some [0x88, 0x77, 0x66, 0x55, 0x44, 0x33, 0x22, 0x11],
     state0\<lparr>trace := [Tx [0xA0, 0x07, 0x5F, 0xFF, 0xFF, 0xFF, 0xFF, 0xFF, 0xFF, 0xF8],
                       TxRx [0xA0, 0x04, 0xD8, 0x0D, 0x71] 12]\<rparr>)"
  by (simp add: otp_eval spi_said_otp_write_fails_def replicate_8)


theorem exec_setotp_revokes_witness:
  "aoosp_exec_setotp xor_crc spi_said_otp_write_fails state0 1 0x0D 0x01 0xFF =
     (aoresult_spi_other 1,
      state0\<lparr>trace := [Tx [0xA0, 0x07, 0x5F, 0xFF, 0xFF, 0xFF, 0xFF, 0xFF, 0xFF, 0xF8],
                        TxRx [0xA0, 0x04, 0xD8, 0x0D, 0x71] 12,
                        Tx [0xA0, 0x07, 0xD9, 0x22, 0x33, 0x44, 0x55, 0x66, 0x77, 0x89, 0x0D, 0xEB],
                        Tx [0xA0, 0x07, 0x5F, 0, 0, 0, 0, 0, 0, 0xF8]]\<rparr>)"
  using exec_setotp_revokes [where crc = xor_crc and spi = spi_said_otp_write_fails and s = state0
      and addr = 1 and otpaddr = "0x0D" and ormask = "0x01" and andmask = "0xFF", OF _ acquire_said]
  by (simp add: otp_eval spi_said_otp_write_fails_def replicate_8)

subsection \<open>The row written back by the OTP update\<close>

lemma send_readotp_okD:
  assumes "aoosp_send_readotp crc spi s1 addr otpaddr (Some b) 8 = (aoresult_ok, buf, s2)"
  shows "\<exists>resp.
      aospi_txrx spi s1 (data (fst (snd (aoosp_con_readotp crc tele0 addr otpaddr (Some 0)))))
        (tsize (fst (snd (aoosp_con_readotp crc tele0 addr otpaddr (Some 0))))) (data tele0) 12
        = (aoresult_ok, resp, s2)
      \<and> aoosp_des_readotp crc \<lparr>data = resp, tsize = 12\<rparr> (Some b) 8 = (aoresult_ok, buf)"
  using assms
  by (auto simp: aoosp_send_readotp_def aoosp_con_readotp_def Let_def set_out_def tele0_tsize
      tele0_def
      split: prod.splits if_splits)

lemma fold_readotp_length:
  "length (fold (\<lambda>i b. b[i := d ! (10 - i)]) xs b) = length b"
  by (induction xs arbitrary: b) simp_all

lemma fold_readotp_nth:
  "n \<le> length b \<Longrightarrow> i < n \<Longrightarrow> fold (\<lambda>i b. b[i := d ! (10 - i)]) [0..<n] b ! i = d ! (10 - i)"
proof (induction n arbitrary: i)
  case 0
  then show ?case by simp
next
  case (Suc n)
  then show ?case
    by (cases "i = n") (simp_all add: fold_readotp_length)
qed

lemma des_readotp_okD:
  assumes "aoosp_des_readotp crc resp (Some b) 8 = (aoresult_ok, buf)" and "length b = 8"
  shows "\<exists>row. buf = Some row \<and> length row = 8 \<and> (\<forall>i<8. row ! i = data resp ! (10 - i))"
  using assms
  by (auto simp: aoosp_des_readotp_def set_out_def fold_readotp_length fold_readotp_nth
      split: if_splits)

lemma send_setotp_7:
  "AOOSP_ADDR_ISOK addr \<Longrightarrow> \<not> otpaddr > 0x1F \<Longrightarrow>
   aoosp_send_setotp crc spi s addr otpaddr w 7 =
     (tx_reply spi (trace s) (take 12 (data (snd (aoosp_con_setotp crc tele0 addr otpaddr w 7)))),
      s\<lparr>trace := trace s @ [Tx (take 12 (data (snd (aoosp_con_setotp crc tele0 addr otpaddr w 7))))]\<rparr>)"
  by (simp add: aoosp_send_setotp_def aoosp_con_setotp_def Let_def aospi_tx_def log_event_def
      tele_simps)

lemma setotp_frame:
  "AOOSP_ADDR_ISOK addr \<Longrightarrow> \<not> otpaddr > 0x1F \<Longrightarrow>
   f = take 12 (data (snd (aoosp_con_setotp crc tele0 addr otpaddr w 7))) \<Longrightarrow>
   length f = 12 \<and> f ! 10 = otpaddr \<and> f ! 9 = w ! 0 \<and> f ! 8 = w ! 1 \<and> f ! 7 = w ! 2 \<and>
   f ! 6 = w ! 3 \<and> f ! 5 = w ! 4 \<and> f ! 4 = w ! 5 \<and> f ! 3 = w ! 6"
  by (simp add: aoosp_con_setotp_def tele_simps upt_0_7 length_tele0)


text \<open>
  C8. A call of \<^verbatim>\<open>aoosp_exec_setotp\<close> in which the password and the read step
  succeeded. \<open>resp\<close> is the 12 byte response telegram the transport delivered for
  \<^verbatim>\<open>READOTP\<close>, \<open>row\<close> the 8 byte row that \<^verbatim>\<open>aoosp_send_readotp\<close> made of it, \<open>f\<close> the
  \<^verbatim>\<open>SETOTP\<close> telegram transmitted next and \<open>g\<close> the revoke telegram. The decoder
  takes the byte of row offset \<open>i\<close> from \<open>resp ! (10 - i)\<close>; the constructor puts the
  byte of row offset \<open>i\<close> at \<open>f ! (9 - i)\<close> and the row address at \<open>f ! 10\<close>.
  Offset 0 is written as \<open>(old AND andmask) OR ormask\<close>, offsets 1 to 6 are written
  with the byte that was read at the same offset.
\<close>

theorem exec_setotp_writes_back:
  assumes range: "\<not> (otpaddr < 0x0D \<or> otpaddr > 0x1F)"
    and acquire: "aoosp_send_settestpw crc spi s addr (aoosp_said_testpw_get s) = (aoresult_ok, s1)"
    and read: "aoosp_send_readotp crc spi s1 addr otpaddr (Some (replicate 8 0)) 8 = (aoresult_ok, buf, s2)"
  shows
    "\<exists>resp row f g.
        aospi_txrx spi s1 (data (fst (snd (aoosp_con_readotp crc tele0 addr otpaddr (Some 0)))))
          (tsize (fst (snd (aoosp_con_readotp crc tele0 addr otpaddr (Some 0))))) (data tele0) 12
          = (aoresult_ok, resp, s2)
      \<and> buf = Some row \<and> length row = 8 \<and> (\<forall>i<8. row ! i = resp ! (10 - i))
      \<and> trace (snd (aoosp_exec_setotp crc spi s addr otpaddr ormask andmask)) = trace s2 @ [Tx f, Tx g]
      \<and> f = take 12 (data (snd (aoosp_con_setotp crc tele0 addr otpaddr
                                  (row[0 := (row ! 0 AND andmask) OR ormask]) 7)))
      \<and> length f = 12 \<and> f ! 10 = otpaddr
      \<and> f ! 9 = (row ! 0 AND andmask) OR ormask
      \<and> f ! 9 = (resp ! 10 AND andmask) OR ormask
      \<and> (\<forall>i\<in>{1..6}. f ! (9 - i) = row ! i \<and> f ! (9 - i) = resp ! (10 - i))"
proof -
  have ok: "AOOSP_ADDR_ISOK addr" using acquire by (rule send_settestpw_ok_addr)
  have hi: "\<not> otpaddr > 0x1F" using range by simp
  obtain resp where
    txrx: "aospi_txrx spi s1 (data (fst (snd (aoosp_con_readotp crc tele0 addr otpaddr (Some 0)))))
          (tsize (fst (snd (aoosp_con_readotp crc tele0 addr otpaddr (Some 0))))) (data tele0) 12
          = (aoresult_ok, resp, s2)"
    and des: "aoosp_des_readotp crc \<lparr>data = resp, tsize = 12\<rparr> (Some (replicate 8 0)) 8 = (aoresult_ok, buf)"
    using send_readotp_okD [OF read] by blast
  obtain row where row: "buf = Some row" "length row = 8" "\<forall>i<8. row ! i = resp ! (10 - i)"
    using des_readotp_okD [OF des] by auto
  define w where "w = row[0 := (row ! 0 AND andmask) OR ormask]"
  define f where "f = take 12 (data (snd (aoosp_con_setotp crc tele0 addr otpaddr w 7)))"
  define g where "g = take 10 (data (snd (aoosp_con_settestpw crc tele0 addr 0)))"
  have fr: "length f = 12 \<and> f ! 10 = otpaddr \<and> f ! 9 = w ! 0 \<and> f ! 8 = w ! 1 \<and> f ! 7 = w ! 2 \<and>
     f ! 6 = w ! 3 \<and> f ! 5 = w ! 4 \<and> f ! 4 = w ! 5 \<and> f ! 3 = w ! 6"
    using setotp_frame [OF ok hi f_def] .
  have w0: "w ! 0 = (row ! 0 AND andmask) OR ormask" using row(2) by (simp add: w_def)
  have wi: "0 < i \<Longrightarrow> w ! i = row ! i" for i by (simp add: w_def)
  have tr: "trace (snd (aoosp_exec_setotp crc spi s addr otpaddr ormask andmask)) = trace s2 @ [Tx f, Tx g]"
    using range acquire read row(1)
    by (simp add: aoosp_exec_setotp_def Let_def free_resources_def send_settestpw_0 [OF ok]
        send_setotp_7 [OF ok hi] f_def g_def w_def split: prod.splits)
  have each: "f ! (9 - i) = row ! i" if "i \<in> {1..6}" for i
  proof -
    from that have "i = 1 \<or> i = 2 \<or> i = 3 \<or> i = 4 \<or> i = 5 \<or> i = 6" by auto
    then show ?thesis using fr wi by auto
  qed
  have each': "f ! (9 - i) = resp ! (10 - i)" if "i \<in> {1..6}" for i
    using each [OF that] row(3) that by simp
  have r0: "row ! 0 = resp ! 10" using row(3) by simp
  have f9: "f ! 9 = (row ! 0 AND andmask) OR ormask" using fr w0 by simp
  have f9': "f ! 9 = (resp ! 10 AND andmask) OR ormask" using f9 r0 by simp
  have all: "\<forall>i\<in>{1..6}. f ! (9 - i) = row ! i \<and> f ! (9 - i) = resp ! (10 - i)"
    using each each' by blast
  have fdef: "f = take 12 (data (snd (aoosp_con_setotp crc tele0 addr otpaddr
                                  (row[0 := (row ! 0 AND andmask) OR ormask]) 7)))"
    by (simp add: f_def w_def)
  from txrx row(1) row(2) row(3) tr fdef fr f9 f9' all
  show ?thesis
    by (intro exI [of _ resp] exI [of _ row] exI [of _ f] exI [of _ g]) simp
qed

lemma acquire_said_otp:
  "aoosp_send_settestpw xor_crc spi_said_otp state0 1 (aoosp_said_testpw_get state0) =
    (aoresult_ok,
     state0\<lparr>trace := [Tx [0xA0, 0x07, 0x5F, 0xFF, 0xFF, 0xFF, 0xFF, 0xFF, 0xFF, 0xF8]]\<rparr>)"
  by (simp add: otp_eval spi_said_otp_def)

lemma read_said_otp:
  "aoosp_send_readotp xor_crc spi_said_otp
     (state0\<lparr>trace := [Tx [0xA0, 0x07, 0x5F, 0xFF, 0xFF, 0xFF, 0xFF, 0xFF, 0xFF, 0xF8]]\<rparr>)
     1 0x0D (Some (replicate 8 0)) 8 =
    (aoresult_ok, Some [0x88, 0x77, 0x66, 0x55, 0x44, 0x33, 0x22, 0x11],
     state0\<lparr>trace := [Tx [0xA0, 0x07, 0x5F, 0xFF, 0xFF, 0xFF, 0xFF, 0xFF, 0xFF, 0xF8],
                       TxRx [0xA0, 0x04, 0xD8, 0x0D, 0x71] 12]\<rparr>)"
  by (simp add: otp_eval spi_said_otp_def replicate_8)

theorem exec_setotp_writes_back_witness:
  "\<exists>f g. trace (snd (aoosp_exec_setotp xor_crc spi_said_otp state0 1 0x0D 0x01 0xFF)) =
       [Tx [0xA0, 0x07, 0x5F, 0xFF, 0xFF, 0xFF, 0xFF, 0xFF, 0xFF, 0xF8],
        TxRx [0xA0, 0x04, 0xD8, 0x0D, 0x71] 12, Tx f, Tx g]
     \<and> f ! 10 = 0x0D \<and> f ! 9 = 0x89
     \<and> (\<forall>i\<in>{1..6}. f ! (9 - i) = [0x88, 0x77, 0x66, 0x55, 0x44, 0x33, 0x22, 0x11] ! i)"
proof -
  have range: "\<not> ((0x0D :: 8 word) < 0x0D \<or> (0x0D :: 8 word) > 0x1F)" by simp
  from exec_setotp_writes_back [OF range acquire_said_otp read_said_otp, of "0x01" "0xFF"]
  obtain resp row f g where
    row: "Some [0x88, 0x77, 0x66, 0x55, 0x44, 0x33, 0x22, 0x11] = Some row"
    and tr: "trace (snd (aoosp_exec_setotp xor_crc spi_said_otp state0 1 0x0D 0x01 0xFF)) =
       trace (state0\<lparr>trace := [Tx [0xA0, 0x07, 0x5F, 0xFF, 0xFF, 0xFF, 0xFF, 0xFF, 0xFF, 0xF8],
                       TxRx [0xA0, 0x04, 0xD8, 0x0D, 0x71] 12]\<rparr>) @ [Tx f, Tx g]"
    and f10: "f ! 10 = 0x0D"
    and f9: "f ! 9 = (row ! 0 AND 0xFF) OR 0x01"
    and fi: "\<forall>i\<in>{1..6}. f ! (9 - i) = row ! i \<and> f ! (9 - i) = resp ! (10 - i)"
    by blast
  from row have r: "row = [0x88, 0x77, 0x66, 0x55, 0x44, 0x33, 0x22, 0x11]" by simp
  show ?thesis
    using tr f10 f9 fi unfolding r by (intro exI [of _ f] exI [of _ g]) simp
qed

subsection \<open>Byte counts of an I2C write\<close>

text \<open>
  C5. The count check of \<^verbatim>\<open>aoosp_con_i2cwrite8\<close> and \<^verbatim>\<open>aoosp_send_i2cwrite8\<close>. A count
  other than 1, 2, 4 or 6 (that is \<open>count < 1\<close>, a payload \<open>count + 2\<close> above 8, or a
  payload of 5 or 7) is rejected on every input: the constructor leaves the telegram
  as it is and the send function makes no transport call. The error is
  \<open>aoresult_osp_arg\<close> whenever the two tests that stand before the count tests pass
  (buffer not null, address legal). Each of the counts 1, 2, 4 and 6 passes when the
  other arguments are legal.
\<close>

theorem i2cwrite8_count_check:
  "(count \<notin> {1, 2, 4, 6} \<longrightarrow>
      fst (aoosp_con_i2cwrite8 crc tele addr daddr7 raddr buf count) \<noteq> aoresult_ok
    \<and> snd (aoosp_con_i2cwrite8 crc tele addr daddr7 raddr buf count) = tele
    \<and> fst (aoosp_send_i2cwrite8 crc spi s addr daddr7 raddr buf count) \<noteq> aoresult_ok
    \<and> snd (aoosp_send_i2cwrite8 crc spi s addr daddr7 raddr buf count) = s
    \<and> (buf \<noteq> None \<and> AOOSP_ADDR_ISOK addr \<longrightarrow>
          fst (aoosp_con_i2cwrite8 crc tele addr daddr7 raddr buf count) = aoresult_osp_arg
        \<and> fst (aoosp_send_i2cwrite8 crc spi s addr daddr7 raddr buf count) = aoresult_osp_arg))
   \<and> (count \<in> {1, 2, 4, 6} \<and> buf \<noteq> None \<and> AOOSP_ADDR_ISOK addr \<and> daddr7 \<le> 127 \<longrightarrow>
      fst (aoosp_con_i2cwrite8 crc tele addr daddr7 raddr buf count) = aoresult_ok)"
proof -
  have bad: "count \<notin> {1, 2, 4, 6} \<Longrightarrow>
     count < 1 \<or> count + 2 > 8 \<or> count + 2 = 5 \<or> count + 2 = 7"
    by auto
  have good: "count \<in> {1, 2, 4, 6} \<Longrightarrow>
     \<not> (count < 1 \<or> count + 2 > 8 \<or> count + 2 = 5 \<or> count + 2 = 7)"
    by auto
  show ?thesis
    using bad good
    by (auto simp add: aoosp_con_i2cwrite8_def aoosp_send_i2cwrite8_def Let_def
        split: prod.splits if_splits)
qed

theorem i2cwrite8_count_check_witness:
  "fst (aoosp_send_i2cwrite8 xor_crc spi_no_response state0 1 0x50 0x00 (Some [1, 2, 3]) 3) = aoresult_osp_arg
   \<and> snd (aoosp_send_i2cwrite8 xor_crc spi_no_response state0 1 0x50 0x00 (Some [1, 2, 3]) 3) = state0
   \<and> fst (aoosp_con_i2cwrite8 xor_crc tele0 1 0x50 0x00 (Some [1, 2, 3, 4]) 4) = aoresult_ok"
  using i2cwrite8_count_check [of 3 xor_crc tele0 1 "0x50" 0 "Some [1, 2, 3]" spi_no_response state0]
    i2cwrite8_count_check [of 4 xor_crc tele0 1 "0x50" 0 "Some [1, 2, 3, 4]" spi_no_response state0]
  by (simp add: addr1_ok)

subsection \<open>The frame every constructor builds\<close>

lemma not_bit_small: "0 \<le> (x::int) \<Longrightarrow> x < 2 ^ k \<Longrightarrow> k \<le> n \<Longrightarrow> \<not> bit x n"
  by (metis bit_take_bit_iff not_le take_bit_int_eq_self)

lemma psi_high:
  "BITS_SLICE (uint (word_of_int (push_bit 2 a OR BITS_SLICE p 1 3) :: 8 word)) 0 2 = BITS_SLICE p 1 3"
  by (rule bit_eqI) (auto simp add: bit_BITS_SLICE bit_simps)

lemma psi_low:
  assumes "0 \<le> tid" "tid < 128"
  shows "BITS_SLICE (uint (word_of_int (push_bit 7 (BITS_SLICE p 0 1) OR tid) :: 8 word)) 7 8
           = BITS_SLICE p 0 1"
proof -
  have nb: "\<not> bit tid (7 + n)" for n
    using not_bit_small [of tid 7 "7 + n"] assms by simp
  show ?thesis
    by (rule bit_eqI) (auto simp add: bit_BITS_SLICE bit_simps nb)
qed

lemma psi_join: "0 \<le> p \<Longrightarrow> p \<le> 7 \<Longrightarrow> BITS_SLICE p 1 3 * 2 + BITS_SLICE p 0 1 = p"
  by (simp add: BITS_SLICE_mod, presburger?)

lemma SIZE2PSI_min: "SIZE2PSI p = min p 7"
  by (simp add: SIZE2PSI_def)

lemma TELEPSI_build_header:
  assumes "3 \<le> length (data tele)" "0 \<le> tid" "tid < 128" "0 \<le> p"
  shows "TELEPSI (build_header tele addr p tid) = min p 7"
proof -
  have r: "0 \<le> SIZE2PSI p" "SIZE2PSI p \<le> 7" using assms by (simp_all add: SIZE2PSI_def)
  have d1: "data (build_header tele addr p tid) ! 1 =
      word_of_int (push_bit 2 (BITS_SLICE (uint addr) 0 6) OR BITS_SLICE (SIZE2PSI p) 1 3)"
    using assms(1) by (simp add: data_build_header)
  have d2: "data (build_header tele addr p tid) ! 2 =
      word_of_int (push_bit 7 (BITS_SLICE (SIZE2PSI p) 0 1) OR tid)"
    using assms(1) by (simp add: data_build_header)
  show ?thesis
    unfolding TELEPSI_def d1 d2 psi_high psi_low [OF assms(2,3)] psi_join [OF r]
    by (rule SIZE2PSI_min)
qed

lemma TELEPSI_put: "k \<noteq> 1 \<Longrightarrow> k \<noteq> 2 \<Longrightarrow> TELEPSI (put k v t) = TELEPSI t"
  by (simp add: TELEPSI_def data_put)

lemma TELEPSI_put_crc: "k \<noteq> 1 \<Longrightarrow> k \<noteq> 2 \<Longrightarrow> TELEPSI (put_crc crc k t) = TELEPSI t"
  by (simp add: TELEPSI_def data_put_crc)

lemma TELEPSI_fold_put:
  "\<forall>i\<in>set xs. f i \<noteq> 1 \<and> f i \<noteq> 2 \<Longrightarrow> TELEPSI (fold (\<lambda>i. put (f i) (g i)) xs t) = TELEPSI t"
  by (induction xs arbitrary: t) (simp_all add: TELEPSI_put)

lemma length_build_header: "length (data (build_header tele addr p tid)) = length (data tele)"
  by (simp add: data_build_header)

lemma length_put: "length (data (put k v t)) = length (data t)"
  by (simp add: data_put)

lemmas shape_simps = tsize_put tsize_put_crc tsize_build_header tsize_fold_put length_fold_put
  length_build_header length_put TELEPSI_put TELEPSI_put_crc TELEPSI_fold_put TELEPSI_build_header
  data_put_crc

lemma con_frame_shape:
  assumes len: "length (data tele) = AOOSP_TELE_MAXSIZE"
    and ok: "aoosp_con crc tele c = (aoresult_ok, t)"
  shows "int (tsize t) = con_payloadsize c + 4 \<and> 4 \<le> tsize t \<and> tsize t \<le> 12
     \<and> TELEPSI t = min (con_payloadsize c) 7
     \<and> data t ! (tsize t - 1) = crc (take (tsize t - 1) (data t))"
proof (cases c)
  case (Con_reset addr)
  then show ?thesis
    using len ok
    by (auto simp: aoosp_con_reset_def shape_simps AOOSP_TELE_MAXSIZE_def split: if_splits prod.splits)
next
  case (Con_clrerror addr)
  then show ?thesis
    using len ok
    by (auto simp: aoosp_con_clrerror_def shape_simps AOOSP_TELE_MAXSIZE_def split: if_splits prod.splits)
next
  case (Con_initbidir addr respsize)
  then show ?thesis
    using len ok
    by (auto simp: aoosp_con_initbidir_def shape_simps AOOSP_TELE_MAXSIZE_def split: if_splits prod.splits)
next
  case (Con_initloop addr respsize)
  then show ?thesis
    using len ok
    by (auto simp: aoosp_con_initloop_def shape_simps AOOSP_TELE_MAXSIZE_def split: if_splits prod.splits)
next
  case (Con_gosleep addr)
  then show ?thesis
    using len ok
    by (auto simp: aoosp_con_gosleep_def shape_simps AOOSP_TELE_MAXSIZE_def split: if_splits prod.splits)
next
  case (Con_goactive addr)
  then show ?thesis
    using len ok
    by (auto simp: aoosp_con_goactive_def shape_simps AOOSP_TELE_MAXSIZE_def split: if_splits prod.splits)
next
  case (Con_identify addr respsize)
  then show ?thesis
    using len ok
    by (auto simp: aoosp_con_identify_def shape_simps AOOSP_TELE_MAXSIZE_def split: if_splits prod.splits)
next
  case (Con_readmult addr respsize)
  then show ?thesis
    using len ok
    by (auto simp: aoosp_con_readmult_def shape_simps AOOSP_TELE_MAXSIZE_def split: if_splits prod.splits)
next
  case (Con_setmult addr a0)
  then show ?thesis
    using len ok
    by (auto simp: aoosp_con_setmult_def shape_simps AOOSP_TELE_MAXSIZE_def split: if_splits prod.splits)
next
  case (Con_sync addr)
  then show ?thesis
    using len ok
    by (auto simp: aoosp_con_sync_def shape_simps AOOSP_TELE_MAXSIZE_def split: if_splits prod.splits)
next
  case (Con_idle addr)
  then show ?thesis
    using len ok
    by (auto simp: aoosp_con_idle_def shape_simps AOOSP_TELE_MAXSIZE_def split: if_splits prod.splits)
next
  case (Con_foundry addr)
  then show ?thesis
    using len ok
    by (auto simp: aoosp_con_foundry_def shape_simps AOOSP_TELE_MAXSIZE_def split: if_splits prod.splits)
next
  case (Con_cust addr)
  then show ?thesis
    using len ok
    by (auto simp: aoosp_con_cust_def shape_simps AOOSP_TELE_MAXSIZE_def split: if_splits prod.splits)
next
  case (Con_burn addr)
  then show ?thesis
    using len ok
    by (auto simp: aoosp_con_burn_def shape_simps AOOSP_TELE_MAXSIZE_def split: if_splits prod.splits)
next
  case (Con_i2cread8 addr a0 a1 a2)
  then show ?thesis
    using len ok
    by (auto simp: aoosp_con_i2cread8_def shape_simps AOOSP_TELE_MAXSIZE_def split: if_splits prod.splits)
next
  case (Con_i2cwrite8 addr a0 a1 a2 a3)
  from ok Con_i2cwrite8 have c: "a3 = 1 \<or> a3 = 2 \<or> a3 = 4 \<or> a3 = 6"
    by (auto simp: aoosp_con_i2cwrite8_def split: if_splits)
  from c show ?thesis
    using len ok Con_i2cwrite8
    by (elim disjE)
      (auto simp: aoosp_con_i2cwrite8_def shape_simps AOOSP_TELE_MAXSIZE_def split: if_splits)
next
  case (Con_readlast addr respsize)
  then show ?thesis
    using len ok
    by (auto simp: aoosp_con_readlast_def shape_simps AOOSP_TELE_MAXSIZE_def split: if_splits prod.splits)
next
  case (Con_goactive_sr addr respsize)
  then show ?thesis
    using len ok
    by (auto simp: aoosp_con_goactive_sr_def shape_simps AOOSP_TELE_MAXSIZE_def split: if_splits prod.splits)
next
  case (Con_readstat addr respsize)
  then show ?thesis
    using len ok
    by (auto simp: aoosp_con_readstat_def shape_simps AOOSP_TELE_MAXSIZE_def split: if_splits prod.splits)
next
  case (Con_readtempstat addr respsize)
  then show ?thesis
    using len ok
    by (auto simp: aoosp_con_readtempstat_def shape_simps AOOSP_TELE_MAXSIZE_def split: if_splits prod.splits)
next
  case (Con_readcomst addr respsize)
  then show ?thesis
    using len ok
    by (auto simp: aoosp_con_readcomst_def shape_simps AOOSP_TELE_MAXSIZE_def split: if_splits prod.splits)
next
  case (Con_readtemp addr respsize)
  then show ?thesis
    using len ok
    by (auto simp: aoosp_con_readtemp_def shape_simps AOOSP_TELE_MAXSIZE_def split: if_splits prod.splits)
next
  case (Con_readsetup addr respsize)
  then show ?thesis
    using len ok
    by (auto simp: aoosp_con_readsetup_def shape_simps AOOSP_TELE_MAXSIZE_def split: if_splits prod.splits)
next
  case (Con_setsetup addr a0)
  then show ?thesis
    using len ok
    by (auto simp: aoosp_con_setsetup_def shape_simps AOOSP_TELE_MAXSIZE_def split: if_splits prod.splits)
next
  case (Con_readpwm addr respsize)
  then show ?thesis
    using len ok
    by (auto simp: aoosp_con_readpwm_def shape_simps AOOSP_TELE_MAXSIZE_def split: if_splits prod.splits)
next
  case (Con_readpwmchn addr a0 respsize)
  then show ?thesis
    using len ok
    by (auto simp: aoosp_con_readpwmchn_def shape_simps AOOSP_TELE_MAXSIZE_def split: if_splits prod.splits)
next
  case (Con_setpwm addr a0 a1 a2 a3)
  then show ?thesis
    using len ok
    by (auto simp: aoosp_con_setpwm_def shape_simps AOOSP_TELE_MAXSIZE_def split: if_splits prod.splits)
next
  case (Con_setpwmchn addr a0 a1 a2 a3)
  then show ?thesis
    using len ok
    by (auto simp: aoosp_con_setpwmchn_def shape_simps AOOSP_TELE_MAXSIZE_def split: if_splits prod.splits)
next
  case (Con_readcurchn addr a0 respsize)
  then show ?thesis
    using len ok
    by (auto simp: aoosp_con_readcurchn_def shape_simps AOOSP_TELE_MAXSIZE_def split: if_splits prod.splits)
next
  case (Con_setcurchn addr a0 a1 a2 a3 a4)
  then show ?thesis
    using len ok
    by (auto simp: aoosp_con_setcurchn_def shape_simps AOOSP_TELE_MAXSIZE_def split: if_splits prod.splits)
next
  case (Con_readi2ccfg addr respsize)
  then show ?thesis
    using len ok
    by (auto simp: aoosp_con_readi2ccfg_def shape_simps AOOSP_TELE_MAXSIZE_def split: if_splits prod.splits)
next
  case (Con_seti2ccfg addr a0 a1)
  then show ?thesis
    using len ok
    by (auto simp: aoosp_con_seti2ccfg_def shape_simps AOOSP_TELE_MAXSIZE_def split: if_splits prod.splits)
next
  case (Con_readotp addr a0 respsize)
  then show ?thesis
    using len ok
    by (auto simp: aoosp_con_readotp_def shape_simps AOOSP_TELE_MAXSIZE_def split: if_splits prod.splits)
next
  case (Con_setotp addr a0 a1 a2)
  then show ?thesis
    using len ok
    by (auto simp: aoosp_con_setotp_def upt_0_7 shape_simps AOOSP_TELE_MAXSIZE_def
        split: if_splits prod.splits)
next
  case (Con_settestdata addr a0)
  then show ?thesis
    using len ok
    by (auto simp: aoosp_con_settestdata_def shape_simps AOOSP_TELE_MAXSIZE_def split: if_splits prod.splits)
next
  case (Con_settestpw addr a0)
  then show ?thesis
    using len ok
    by (auto simp: aoosp_con_settestpw_def shape_simps AOOSP_TELE_MAXSIZE_def split: if_splits prod.splits)
qed

text \<open>
  C6. Every telegram that a constructor builds (result \<open>aoresult_ok\<close>, in a 12 byte
  buffer) has as size the payload size of its command plus 4, hence 4 to 12 bytes;
  its payload size indicator, read back from bytes 1 and 2 by \<^verbatim>\<open>TELEPSI\<close>, is the
  minimum of the payload size and 7, so that payload sizes 7 and 8 both give 7; and
  its last byte is the checksum of the \<open>size - 1\<close> bytes before it.
\<close>

theorem con_frame_invariant:
  assumes "length (data tele) = AOOSP_TELE_MAXSIZE"
    and "aoosp_con crc tele c = (aoresult_ok, t)"
  shows "int (tsize t) = con_payloadsize c + 4 \<and> 4 \<le> tsize t \<and> tsize t \<le> 12
     \<and> TELEPSI t = min (con_payloadsize c) 7
     \<and> data t ! (tsize t - 1) = crc (take (tsize t - 1) (data t))
     \<and> SIZE2PSI 7 = 7 \<and> SIZE2PSI 8 = 7"
  using con_frame_shape [OF assms] by (simp add: SIZE2PSI_def)

theorem con_frame_invariant_witness:
  "aoosp_con xor_crc tele0 (Con_setotp 1 0x0D [0x89, 0x77, 0x66, 0x55, 0x44, 0x33, 0x22] 7) =
     (aoresult_ok,
      \<lparr>data = [0xA0, 0x07, 0xD9, 0x22, 0x33, 0x44, 0x55, 0x66, 0x77, 0x89, 0x0D, 0xEB], tsize = 12\<rparr>)
   \<and> TELEPSI \<lparr>data = [0xA0, 0x07, 0xD9, 0x22, 0x33, 0x44, 0x55, 0x66, 0x77, 0x89, 0x0D, 0xEB],
               tsize = 12\<rparr> = 7
   \<and> xor_crc [0xA0, 0x07, 0xD9, 0x22, 0x33, 0x44, 0x55, 0x66, 0x77, 0x89, 0x0D] = 0xEB"
proof -
  have len: "length (data tele0) = AOOSP_TELE_MAXSIZE"
    by (simp add: tele0_data AOOSP_TELE_MAXSIZE_def)
  have ev: "aoosp_con xor_crc tele0 (Con_setotp 1 0x0D [0x89, 0x77, 0x66, 0x55, 0x44, 0x33, 0x22] 7) =
     (aoresult_ok,
      \<lparr>data = [0xA0, 0x07, 0xD9, 0x22, 0x33, 0x44, 0x55, 0x66, 0x77, 0x89, 0x0D, 0xEB], tsize = 12\<rparr>)"
    by (simp add: otp_eval)
  from con_frame_invariant [OF len ev] ev show ?thesis
    by (simp add: xor_crc_def)
qed

subsection \<open>The order of the checks of a destructor\<close>




subsection \<open>Payload fields of a request read back from a response\<close>


































subsection \<open>Status polls of an I2C transaction\<close>

text \<open>
  The wait loop of \<^verbatim>\<open>aoosp_exec_i2cwrite8\<close> and \<^verbatim>\<open>aoosp_exec_i2cread8\<close>, in terms of
  the polls it makes. The cells handed to \<^verbatim>\<open>aoosp_send_readi2ccfg\<close> matter only when it
  fails, so each pass of the loop is one \<open>poll_result\<close> and one \<open>poll_sent\<close>.
\<close>

lemma readi2ccfg_cells:
  assumes "aoosp_send_readi2ccfg crc spi s addr (Some a) (Some b) = (r, fl, sp, s')"
  shows "aoosp_send_readi2ccfg crc spi s addr (Some a') (Some b') =
           (r, if r = aoresult_ok then fl else Some a', if r = aoresult_ok then sp else Some b', s')"
  using assms
  by (auto simp: aoosp_send_readi2ccfg_def aoosp_des_readi2ccfg_def Let_def set_out_def
      split: prod.splits if_splits)

lemma readi2ccfg_poll:
  "\<exists>sp. aoosp_send_readi2ccfg crc spi s addr (Some a) (Some b) =
     (fst (poll_result crc spi addr s),
      (if fst (poll_result crc spi addr s) = aoresult_ok
        then Some (snd (poll_result crc spi addr s)) else Some a),
      sp, poll_sent crc spi addr s)"
proof -
  obtain r fl sp s' where e: "aoosp_send_readi2ccfg crc spi s addr (Some 0) (Some 0) = (r, fl, sp, s')"
    by (metis prod_cases4)
  have fl: "r = aoresult_ok \<Longrightarrow> fl \<noteq> None"
    using e
    by (auto simp: aoosp_send_readi2ccfg_def aoosp_des_readi2ccfg_def Let_def set_out_def
        split: prod.splits if_splits)
  show ?thesis
    using readi2ccfg_cells [OF e, of a b] fl
    by (auto simp: poll_result_def poll_sent_def e)
qed

lemma i2c_wait_busy:
  assumes "flags AND AOOSP_I2CCFG_FLAGS_BUSY \<noteq> 0"
    and "\<forall>k<j. busy_poll crc spi addr (after_polls crc spi addr s k)"
    and "j \<le> n"
  shows "\<exists>f. f AND AOOSP_I2CCFG_FLAGS_BUSY \<noteq> 0 \<and>
     i2c_wait crc spi addr n flags s = i2c_wait crc spi addr (n - j) f (after_polls crc spi addr s j)"
  using assms
proof (induction j arbitrary: n flags s)
  case 0
  then show ?case by auto
next
  case (Suc j)
  from Suc.prems(3) obtain m where n: "n = Suc m" and m: "j \<le> m"
    by (cases n) simp_all
  from Suc.prems(2) have b0: "busy_poll crc spi addr s" by force
  from Suc.prems(2) have rest:
    "\<forall>k<j. busy_poll crc spi addr (after_polls crc spi addr (delay 1 (poll_sent crc spi addr s)) k)"
    by force
  obtain f0 where p0: "poll_result crc spi addr s = (aoresult_ok, f0)"
    and f0: "f0 AND AOOSP_I2CCFG_FLAGS_BUSY \<noteq> 0"
    using b0 by (auto simp: busy_poll_def split: prod.splits)
  obtain sp where call: "aoosp_send_readi2ccfg crc spi s addr (Some flags) (Some 0) =
      (aoresult_ok, Some f0, sp, poll_sent crc spi addr s)"
    using readi2ccfg_poll [of crc spi s addr flags 0] by (auto simp: p0)
  have step: "i2c_wait crc spi addr n flags s =
      i2c_wait crc spi addr m f0 (delay 1 (poll_sent crc spi addr s))"
    using Suc.prems(1) by (simp add: n call)
  from Suc.IH [OF f0 rest m] step show ?case
    by (simp add: n)
qed


lemma after_polls_Suc:
  "after_polls crc spi addr s (Suc k) =
     delay 1 (poll_sent crc spi addr (after_polls crc spi addr s k))"
  by (induction k arbitrary: s) simp_all

lemma i2c_wait_settled:
  assumes j: "j \<le> 10"
    and busy: "\<forall>k<j. busy_poll crc spi addr (after_polls crc spi addr s1 k)"
    and stop: "j < 10 \<longrightarrow> \<not> busy_poll crc spi addr (after_polls crc spi addr s1 j)"
  shows "\<exists>f'. i2c_wait crc spi addr 10 AOOSP_I2CCFG_FLAGS_BUSY s1 =
     (if j = 10 then (aoresult_ok, f', after_polls crc spi addr s1 10)
      else if fst (poll_result crc spi addr (after_polls crc spi addr s1 j)) \<noteq> aoresult_ok
        then (fst (poll_result crc spi addr (after_polls crc spi addr s1 j)), f',
              poll_sent crc spi addr (after_polls crc spi addr s1 j))
      else (aoresult_ok, snd (poll_result crc spi addr (after_polls crc spi addr s1 j)),
            after_polls crc spi addr s1 (Suc j)))
     \<and> (j = 10 \<longrightarrow> f' AND AOOSP_I2CCFG_FLAGS_BUSY \<noteq> 0)
     \<and> (j < 10 \<and> fst (poll_result crc spi addr (after_polls crc spi addr s1 j)) = aoresult_ok \<longrightarrow>
          snd (poll_result crc spi addr (after_polls crc spi addr s1 j)) AND AOOSP_I2CCFG_FLAGS_BUSY = 0)"
proof -
  have b: "AOOSP_I2CCFG_FLAGS_BUSY AND AOOSP_I2CCFG_FLAGS_BUSY \<noteq> 0"
    by (simp add: AOOSP_I2CCFG_FLAGS_BUSY_def)
  obtain f where f: "f AND AOOSP_I2CCFG_FLAGS_BUSY \<noteq> 0"
    and w: "i2c_wait crc spi addr 10 AOOSP_I2CCFG_FLAGS_BUSY s1 =
       i2c_wait crc spi addr (10 - j) f (after_polls crc spi addr s1 j)"
    using i2c_wait_busy [OF b busy j] by blast
  define sj where "sj = after_polls crc spi addr s1 j"
  show ?thesis
  proof (cases "j = 10")
    case True
    then show ?thesis using f w by (intro exI [of _ f]) simp
  next
    case False
    then obtain m where m: "10 - j = Suc m" using j by (cases "10 - j") simp_all
    have lt: "j < 10" using False j by simp
    obtain sp where call: "aoosp_send_readi2ccfg crc spi sj addr (Some f) (Some 0) =
       (fst (poll_result crc spi addr sj),
        (if fst (poll_result crc spi addr sj) = aoresult_ok
          then Some (snd (poll_result crc spi addr sj)) else Some f),
        sp, poll_sent crc spi addr sj)"
      using readi2ccfg_poll [of crc spi sj addr f 0] by blast
    show ?thesis
    proof (cases "fst (poll_result crc spi addr sj) = aoresult_ok")
      case r: False
      then show ?thesis
        using w f lt by (intro exI [of _ f]) (simp add: m call sj_def [symmetric])
    next
      case r: True
      have nb: "snd (poll_result crc spi addr sj) AND AOOSP_I2CCFG_FLAGS_BUSY = 0"
        using stop lt r by (auto simp: busy_poll_def sj_def split: prod.splits)
      have fin: "i2c_wait crc spi addr m (snd (poll_result crc spi addr sj))
            (delay 1 (poll_sent crc spi addr sj)) =
          (aoresult_ok, snd (poll_result crc spi addr sj), delay 1 (poll_sent crc spi addr sj))"
        using nb by (cases m) simp_all
      have e: "after_polls crc spi addr s1 (Suc j) = delay 1 (poll_sent crc spi addr sj)"
        by (simp only: after_polls_Suc sj_def)
      have one: "i2c_wait crc spi addr (Suc m) f sj =
          i2c_wait crc spi addr m (snd (poll_result crc spi addr sj))
            (delay 1 (poll_sent crc spi addr sj))"
        using f r by (simp add: call)
      have w': "i2c_wait crc spi addr 10 AOOSP_I2CCFG_FLAGS_BUSY s1 =
          (aoresult_ok, snd (poll_result crc spi addr sj), after_polls crc spi addr s1 (Suc j))"
        using w unfolding m sj_def [symmetric] one fin e .
      show ?thesis
        using lt r nb w'
        by (intro exI [of _ f]) (simp del: after_polls.simps add: sj_def [symmetric])
    qed
  qed
qed


lemma status_polls_simps [simp]:
  "status_polls (h @ [TxRx f n]) = Suc (status_polls h)"
  "status_polls (h @ [Delay ms]) = status_polls h"
  by (simp_all add: status_polls_def)

lemma poll_sent_trace:
  "AOOSP_ADDR_ISOK addr \<Longrightarrow>
   \<exists>f. trace (poll_sent crc spi addr s) = trace s @ [TxRx f 5]"
  by (auto simp: poll_sent_def aoosp_send_readi2ccfg_def aoosp_con_readi2ccfg_def Let_def
      set_out_def aospi_txrx_def log_event_def split: prod.splits)

lemma status_polls_sent:
  "AOOSP_ADDR_ISOK addr \<Longrightarrow>
   status_polls (trace (poll_sent crc spi addr s)) = Suc (status_polls (trace s))"
  using poll_sent_trace [of addr crc spi s] by auto

lemma status_polls_after:
  "AOOSP_ADDR_ISOK addr \<Longrightarrow>
   status_polls (trace (after_polls crc spi addr s k)) = status_polls (trace s) + k"
  by (induction k arbitrary: s) (simp_all add: delay_def status_polls_sent)

text \<open>
  C4. After the bridge telegram was sent with success (state \<open>s1\<close>), let \<open>j\<close> be the
  number of leading status polls that succeed with the busy flag set, cut off at 10:
  the polls \<open>0 .. j - 1\<close> are busy, and poll \<open>j\<close> is not when \<open>j < 10\<close> (by
  \<open>i2c_poll_cases\<close> there always is such a \<open>j\<close>). Then

  \<^item> with \<open>j = 10\<close> the call returns \<open>aoresult_dev_i2ctimeout\<close> after exactly 10 polls;
  \<^item> with \<open>j < 10\<close> and poll \<open>j\<close> failing, its error is returned;
  \<^item> with \<open>j < 10\<close> and poll \<open>j\<close> reporting the NACK flag (busy clear), the call returns
    \<open>aoresult_dev_i2cnack\<close> after \<open>j + 1\<close> polls, the rest of the budget unused;
  \<^item> with \<open>j < 10\<close> and both flags clear, \<^verbatim>\<open>aoosp_exec_i2cwrite8\<close> returns \<open>aoresult_ok\<close>
    and \<^verbatim>\<open>aoosp_exec_i2cread8\<close> goes on to \<^verbatim>\<open>aoosp_send_readlast\<close>.

  In every case the trace holds \<open>min (j + 1) 10\<close> status requests more than \<open>s1\<close>, so
  never more than 10. Nine busy polls and an idle tenth (\<open>j = 9\<close>) give success.
\<close>

theorem i2c_poll_budget:
  assumes "j \<le> 10"
    and "\<forall>k<j. busy_poll crc spi addr (after_polls crc spi addr s1 k)"
    and "j < 10 \<longrightarrow> \<not> busy_poll crc spi addr (after_polls crc spi addr s1 j)"
  shows
    "let sj = after_polls crc spi addr s1 j;
         (r, f) = poll_result crc spi addr sj;
         verdict = (if j = 10 then aoresult_dev_i2ctimeout
                    else if r \<noteq> aoresult_ok then r
                    else if f AND AOOSP_I2CCFG_FLAGS_NACK \<noteq> 0 then aoresult_dev_i2cnack
                    else aoresult_ok);
         s2 = (if j = 10 then sj
               else if r \<noteq> aoresult_ok then poll_sent crc spi addr sj
               else after_polls crc spi addr s1 (Suc j))
     in (aoosp_send_i2cwrite8 crc spi s addr daddr7 raddr buf (uint count) = (aoresult_ok, s1) \<longrightarrow>
           aoosp_exec_i2cwrite8 crc spi s addr daddr7 raddr buf count = (verdict, s2))
      \<and> (aoosp_send_i2cread8 crc spi s addr daddr7 raddr count = (aoresult_ok, s1) \<longrightarrow>
           aoosp_exec_i2cread8 crc spi s addr daddr7 raddr rbuf count =
             (if verdict = aoresult_ok then aoosp_send_readlast crc spi s2 addr rbuf (uint count)
              else (verdict, rbuf, s2)))
      \<and> (AOOSP_ADDR_ISOK addr \<longrightarrow>
           status_polls (trace s2) = status_polls (trace s1) + min (Suc j) 10)"
proof -
  define sj where "sj = after_polls crc spi addr s1 j"
  obtain r f where rf: "poll_result crc spi addr sj = (r, f)" by (cases "poll_result crc spi addr sj")
  obtain f' where
    w: "i2c_wait crc spi addr 10 AOOSP_I2CCFG_FLAGS_BUSY s1 =
     (if j = 10 then (aoresult_ok, f', after_polls crc spi addr s1 10)
      else if r \<noteq> aoresult_ok then (r, f', poll_sent crc spi addr sj)
      else (aoresult_ok, f, after_polls crc spi addr s1 (Suc j)))"
    and t: "j = 10 \<longrightarrow> f' AND AOOSP_I2CCFG_FLAGS_BUSY \<noteq> 0"
    and i: "j < 10 \<and> r = aoresult_ok \<longrightarrow> f AND AOOSP_I2CCFG_FLAGS_BUSY = 0"
    using i2c_wait_settled [OF assms] unfolding sj_def [symmetric] rf fst_conv snd_conv by blast
  have lt: "j \<noteq> 10 \<Longrightarrow> j < 10" using assms(1) by simp
  have count: "AOOSP_ADDR_ISOK addr \<Longrightarrow>
      status_polls (trace (if j = 10 then sj
               else if r \<noteq> aoresult_ok then poll_sent crc spi addr sj
               else after_polls crc spi addr s1 (Suc j))) = status_polls (trace s1) + min (Suc j) 10"
    using assms(1)
    by (cases "j = 10") (simp_all del: after_polls.simps add: sj_def status_polls_after status_polls_sent)
  have wr: "aoosp_send_i2cwrite8 crc spi s addr daddr7 raddr buf (uint count) = (aoresult_ok, s1) \<Longrightarrow>
      aoosp_exec_i2cwrite8 crc spi s addr daddr7 raddr buf count =
        (if j = 10 then aoresult_dev_i2ctimeout
         else if r \<noteq> aoresult_ok then r
         else if f AND AOOSP_I2CCFG_FLAGS_NACK \<noteq> 0 then aoresult_dev_i2cnack
         else aoresult_ok,
         if j = 10 then sj
         else if r \<noteq> aoresult_ok then poll_sent crc spi addr sj
         else after_polls crc spi addr s1 (Suc j))"
    using t i lt
    by (simp del: after_polls.simps add: aoosp_exec_i2cwrite8_def Let_def w sj_def)
  have rd: "aoosp_send_i2cread8 crc spi s addr daddr7 raddr count = (aoresult_ok, s1) \<Longrightarrow>
      aoosp_exec_i2cread8 crc spi s addr daddr7 raddr rbuf count =
        (if (if j = 10 then aoresult_dev_i2ctimeout
             else if r \<noteq> aoresult_ok then r
             else if f AND AOOSP_I2CCFG_FLAGS_NACK \<noteq> 0 then aoresult_dev_i2cnack
             else aoresult_ok) = aoresult_ok
         then aoosp_send_readlast crc spi
               (if j = 10 then sj
                else if r \<noteq> aoresult_ok then poll_sent crc spi addr sj
                else after_polls crc spi addr s1 (Suc j)) addr rbuf (uint count)
         else (if j = 10 then aoresult_dev_i2ctimeout
               else if r \<noteq> aoresult_ok then r
               else if f AND AOOSP_I2CCFG_FLAGS_NACK \<noteq> 0 then aoresult_dev_i2cnack
               else aoresult_ok, rbuf,
               if j = 10 then sj
               else if r \<noteq> aoresult_ok then poll_sent crc spi addr sj
               else after_polls crc spi addr s1 (Suc j)))"
    using t i lt
    by (simp del: after_polls.simps add: aoosp_exec_i2cread8_def Let_def w sj_def)
  show ?thesis
    unfolding Let_def sj_def [symmetric] rf prod.case
    using wr rd count by blast
qed


lemma i2c_poll_cases:
  "\<exists>j\<le>10. (\<forall>k<j. busy_poll crc spi addr (after_polls crc spi addr s1 k))
     \<and> (j < 10 \<longrightarrow> \<not> busy_poll crc spi addr (after_polls crc spi addr s1 j))"
proof (cases "\<forall>k<10. busy_poll crc spi addr (after_polls crc spi addr s1 k)")
  case True
  then show ?thesis by (intro exI [of _ 10]) simp
next
  case False
  then obtain k where k: "k < 10" "\<not> busy_poll crc spi addr (after_polls crc spi addr s1 k)"
    by blast
  define j where "j = (LEAST k. \<not> busy_poll crc spi addr (after_polls crc spi addr s1 k))"
  have stop: "\<not> busy_poll crc spi addr (after_polls crc spi addr s1 j)"
    unfolding j_def using k(2) by (rule LeastI)
  have le: "j \<le> k" unfolding j_def using k(2) by (rule Least_le)
  have "\<forall>i<j. busy_poll crc spi addr (after_polls crc spi addr s1 i)"
    unfolding j_def using not_less_Least by blast
  with stop le k(1) show ?thesis by (intro exI [of _ j]) simp
qed

text \<open>
  What the sample bridge \<open>spi_i2c_bridge\<close> answers at address 1.
\<close>

lemma bridge_write_sent:
  "aoosp_send_i2cwrite8 xor_crc (spi_i2c_bridge b fin) state0 1 0x50 0x10 (Some [0xAB]) 1 =
     (aoresult_ok, state0\<lparr>trace := [Tx [0xA0, 0x05, 0x99, 0xA0, 0x10, 0xAB, 0x27]]\<rparr>)"
  by (simp add: aoosp_send_i2cwrite8_def aoosp_con_i2cwrite8_def otp_eval spi_i2c_bridge_def)

lemma bridge_read_sent:
  "aoosp_send_i2cread8 xor_crc (spi_i2c_bridge b fin) state0 1 0x50 0x10 2 =
     (aoresult_ok, state0\<lparr>trace := [Tx [0xA0, 0x05, 0x98, 0xA0, 0x10, 0x02, 0x8F]]\<rparr>)"
  by (simp add: aoosp_send_i2cread8_def aoosp_con_i2cread8_def otp_eval spi_i2c_bridge_def)

lemma bridge_poll_idle:
  "poll_result xor_crc (spi_i2c_bridge b 0x0C) 1 s =
     (aoresult_ok, if status_polls (trace s) < b then 1 else 0)"
  by (simp add: poll_result_def aoosp_send_readi2ccfg_def aoosp_con_readi2ccfg_def
      aoosp_des_readi2ccfg_def otp_eval spi_i2c_bridge_def)

lemma bridge_poll_nack:
  "poll_result xor_crc (spi_i2c_bridge b 0x2C) 1 s =
     (aoresult_ok, if status_polls (trace s) < b then 1 else 2)"
  by (simp add: poll_result_def aoosp_send_readi2ccfg_def aoosp_con_readi2ccfg_def
      aoosp_des_readi2ccfg_def otp_eval spi_i2c_bridge_def)

lemma bridge_busy_idle:
  "busy_poll xor_crc (spi_i2c_bridge b 0x0C) 1 (after_polls xor_crc (spi_i2c_bridge b 0x0C) 1 s k)
     \<longleftrightarrow> status_polls (trace s) + k < b"
  by (simp add: busy_poll_def bridge_poll_idle status_polls_after addr1_ok
      AOOSP_I2CCFG_FLAGS_BUSY_def)

lemma bridge_busy_nack:
  "busy_poll xor_crc (spi_i2c_bridge b 0x2C) 1 (after_polls xor_crc (spi_i2c_bridge b 0x2C) 1 s k)
     \<longleftrightarrow> status_polls (trace s) + k < b"
  by (simp add: busy_poll_def bridge_poll_nack status_polls_after addr1_ok
      AOOSP_I2CCFG_FLAGS_BUSY_def)

lemma status_polls_Tx: "status_polls [Tx f] = 0"
  by (simp add: status_polls_def)

lemmas bridge_eval = Let_def bridge_busy_idle bridge_busy_nack bridge_poll_idle bridge_poll_nack
  status_polls_after status_polls_Tx addr1_ok AOOSP_I2CCFG_FLAGS_BUSY_def
  AOOSP_I2CCFG_FLAGS_NACK_def bridge_write_sent bridge_read_sent

text \<open>
  The sample bridge: busy for 9 polls and idle at the tenth gives success after 10
  polls; busy for 10 polls gives the timeout after 10 polls, for a write and for a
  read; a NACK at the first poll gives the NACK error after one poll.
\<close>

theorem i2c_poll_budget_witness:
  "fst (aoosp_exec_i2cwrite8 xor_crc (spi_i2c_bridge 9 0x0C) state0 1 0x50 0x10 (Some [0xAB]) 1)
      = aoresult_ok
   \<and> status_polls (trace (snd
       (aoosp_exec_i2cwrite8 xor_crc (spi_i2c_bridge 9 0x0C) state0 1 0x50 0x10 (Some [0xAB]) 1)))
      = 10
   \<and> fst (aoosp_exec_i2cwrite8 xor_crc (spi_i2c_bridge 10 0x0C) state0 1 0x50 0x10 (Some [0xAB]) 1)
      = aoresult_dev_i2ctimeout
   \<and> status_polls (trace (snd
       (aoosp_exec_i2cwrite8 xor_crc (spi_i2c_bridge 10 0x0C) state0 1 0x50 0x10 (Some [0xAB]) 1)))
      = 10
   \<and> fst (aoosp_exec_i2cwrite8 xor_crc (spi_i2c_bridge 0 0x2C) state0 1 0x50 0x10 (Some [0xAB]) 1)
      = aoresult_dev_i2cnack
   \<and> status_polls (trace (snd
       (aoosp_exec_i2cwrite8 xor_crc (spi_i2c_bridge 0 0x2C) state0 1 0x50 0x10 (Some [0xAB]) 1)))
      = 1
   \<and> aoosp_exec_i2cread8 xor_crc (spi_i2c_bridge 10 0x0C) state0 1 0x50 0x10 (Some [0, 0]) 2
      = (aoresult_dev_i2ctimeout, Some [0, 0],
         after_polls xor_crc (spi_i2c_bridge 10 0x0C) 1
           (state0\<lparr>trace := [Tx [0xA0, 0x05, 0x98, 0xA0, 0x10, 0x02, 0x8F]]\<rparr>) 10)"
proof -
  let ?w = "state0\<lparr>trace := [Tx [0xA0, 0x05, 0x99, 0xA0, 0x10, 0xAB, 0x27]]\<rparr>"
  let ?r = "state0\<lparr>trace := [Tx [0xA0, 0x05, 0x98, 0xA0, 0x10, 0x02, 0x8F]]\<rparr>"
  have a: "fst (aoosp_exec_i2cwrite8 xor_crc (spi_i2c_bridge 9 0x0C) state0 1 0x50 0x10 (Some [0xAB]) 1)
      = aoresult_ok
   \<and> status_polls (trace (snd
       (aoosp_exec_i2cwrite8 xor_crc (spi_i2c_bridge 9 0x0C) state0 1 0x50 0x10 (Some [0xAB]) 1)))
      = 10"
    using i2c_poll_budget [of 9 xor_crc "spi_i2c_bridge 9 0x0C" 1 ?w state0 "0x50" "0x10"
        "Some [0xAB]" 1 "Some [0, 0]"]
    by (simp del: after_polls.simps add: bridge_eval)
  have b: "fst (aoosp_exec_i2cwrite8 xor_crc (spi_i2c_bridge 10 0x0C) state0 1 0x50 0x10 (Some [0xAB]) 1)
      = aoresult_dev_i2ctimeout
   \<and> status_polls (trace (snd
       (aoosp_exec_i2cwrite8 xor_crc (spi_i2c_bridge 10 0x0C) state0 1 0x50 0x10 (Some [0xAB]) 1)))
      = 10"
    using i2c_poll_budget [of 10 xor_crc "spi_i2c_bridge 10 0x0C" 1 ?w state0 "0x50" "0x10"
        "Some [0xAB]" 1 "Some [0, 0]"]
    by (simp del: after_polls.simps add: bridge_eval)
  have c: "fst (aoosp_exec_i2cwrite8 xor_crc (spi_i2c_bridge 0 0x2C) state0 1 0x50 0x10 (Some [0xAB]) 1)
      = aoresult_dev_i2cnack
   \<and> status_polls (trace (snd
       (aoosp_exec_i2cwrite8 xor_crc (spi_i2c_bridge 0 0x2C) state0 1 0x50 0x10 (Some [0xAB]) 1)))
      = 1"
    using i2c_poll_budget [of 0 xor_crc "spi_i2c_bridge 0 0x2C" 1 ?w state0 "0x50" "0x10"
        "Some [0xAB]" 1 "Some [0, 0]"]
    by (simp del: after_polls.simps add: bridge_eval)
  have d: "aoosp_exec_i2cread8 xor_crc (spi_i2c_bridge 10 0x0C) state0 1 0x50 0x10 (Some [0, 0]) 2
      = (aoresult_dev_i2ctimeout, Some [0, 0], after_polls xor_crc (spi_i2c_bridge 10 0x0C) 1 ?r 10)"
    using i2c_poll_budget [of 10 xor_crc "spi_i2c_bridge 10 0x0C" 1 ?r state0 "0x50" "0x10"
        "Some [0xAB]" 2 "Some [0, 0]"]
    by (simp del: after_polls.simps add: bridge_eval)
  from a b c d show ?thesis by blast
qed

end
